theory Spec2Isabelle
  imports Complex_Main
begin

section \<open>Python values and exceptions\<close>

text \<open>
  The extractors of \<^verbatim>\<open>main.py\<close> and \<^verbatim>\<open>main_2.py\<close> work on whatever
  \<^verbatim>\<open>json.load\<close> returns and build plain dictionaries, so both their inputs and
  their outputs are values of one type. A dictionary is an association list in
  insertion order with distinct keys. A finite Python \<^verbatim>\<open>float\<close> is represented by
  the rational number it stands for, and every operation that produces a float rounds
  to binary64 (section Floats below); the two infinities and the not-a-number value, which
  \<^verbatim>\<open>json.load\<close> and \<^verbatim>\<open>float\<close> can produce, are values of their own. Negative
  zero is not distinguished from zero. Strings are byte strings and the character
  classes below are the ASCII ones.
\<close>

datatype pyval =
    PNone
  | PBool bool
  | PInt int
  | PFloat rat
  | PInf
  | PNegInf
  | PNan
  | PStr string
  | PList "pyval list"
  | PDict "(string \<times> pyval) list"

datatype error =
    AttributeError | TypeError | IndexError | KeyError | ValueError | OSError | TimeoutError
  | OverflowError | ZeroDivisionError

text \<open>Sequencing of statements that may raise: the first exception ends the function.\<close>

definition andThen :: "error + 'a \<Rightarrow> ('a \<Rightarrow> error + 'b) \<Rightarrow> error + 'b" where
  "andThen m f = (case m of Inl e \<Rightarrow> Inl e | Inr x \<Rightarrow> f x)"

text \<open>Truth value of an object, as \<^verbatim>\<open>if x\<close>, \<^verbatim>\<open>not x\<close> and \<^verbatim>\<open>x or y\<close> test it.\<close>

fun truthy :: "pyval \<Rightarrow> bool" where
  "truthy PNone = False"
| "truthy (PBool b) = b"
| "truthy (PInt n) = (n \<noteq> 0)"
| "truthy (PFloat r) = (r \<noteq> 0)"
| "truthy PInf = True"
| "truthy PNegInf = True"
| "truthy PNan = True"
| "truthy (PStr s) = (s \<noteq> [])"
| "truthy (PList xs) = (xs \<noteq> [])"
| "truthy (PDict kv) = (kv \<noteq> [])"

definition py_or :: "pyval \<Rightarrow> pyval \<Rightarrow> pyval" where
  "py_or a b = (if truthy a then a else b)"

text \<open>\<^verbatim>\<open>d.get(k, default)\<close> on a dictionary, and on an arbitrary object, where
  only a dictionary has the method.\<close>

definition dget :: "(string \<times> pyval) list \<Rightarrow> string \<Rightarrow> pyval \<Rightarrow> pyval" where
  "dget kv k d = (case map_of kv k of None \<Rightarrow> d | Some v \<Rightarrow> v)"

fun get :: "pyval \<Rightarrow> string \<Rightarrow> pyval \<Rightarrow> error + pyval" where
  "get (PDict kv) k d = Inr (dget kv k d)"
| "get _ k d = Inl AttributeError"

text \<open>\<^verbatim>\<open>d[k] = v\<close>: an existing key keeps its place, a new key goes last.\<close>

fun dict_set :: "(string \<times> 'v) list \<Rightarrow> string \<Rightarrow> 'v \<Rightarrow> (string \<times> 'v) list" where
  "dict_set [] k v = [(k, v)]"
| "dict_set ((k', v') # kv) k v = (if k' = k then (k, v) # kv else (k', v') # dict_set kv k v)"

text \<open>Iteration (\<^verbatim>\<open>for x in v\<close>): a list gives its elements, a string its
  characters, a dictionary its keys; nothing else is iterable.\<close>

fun iter :: "pyval \<Rightarrow> error + pyval list" where
  "iter (PList xs) = Inr xs"
| "iter (PStr s) = Inr (map (\<lambda>c. PStr [c]) s)"
| "iter (PDict kv) = Inr (map (\<lambda>p. PStr (fst p)) kv)"
| "iter _ = Inl TypeError"

text \<open>\<^verbatim>\<open>v[0]\<close>. The keys of a loaded JSON object are strings, so \<^verbatim>\<open>0\<close> is
  never a key of a dictionary.\<close>

fun index0 :: "pyval \<Rightarrow> error + pyval" where
  "index0 (PList []) = Inl IndexError"
| "index0 (PList (x # xs)) = Inr x"
| "index0 (PStr []) = Inl IndexError"
| "index0 (PStr (c # cs)) = Inr (PStr [c])"
| "index0 (PDict kv) = Inl KeyError"
| "index0 _ = Inl TypeError"

text \<open>\<^verbatim>\<open>v[:n]\<close>. A dictionary rejects a slice (with TypeError up to Python 3.11,
  with KeyError from 3.12 on; the model takes the former).\<close>

fun slice :: "nat \<Rightarrow> pyval \<Rightarrow> error + pyval" where
  "slice n (PList xs) = Inr (PList (take n xs))"
| "slice n (PStr s) = Inr (PStr (take n s))"
| "slice n _ = Inl TypeError"

text \<open>\<^verbatim>\<open>len(v)\<close>.\<close>

fun len :: "pyval \<Rightarrow> error + nat" where
  "len (PList xs) = Inr (length xs)"
| "len (PStr s) = Inr (length s)"
| "len (PDict kv) = Inr (length kv)"
| "len _ = Inl TypeError"

section \<open>Floats\<close>

text \<open>
  Rounding of a rational number to binary64, to nearest with ties to even: 53 significant
  bits, and no bit below \<open>pow2 (- 1074)\<close> (the subnormal range). \<open>bit_length\<close> is
  \<^verbatim>\<open>int.bit_length\<close>, \<open>pow2 k\<close> the power of two with exponent \<open>k\<close>, and
  \<open>floor_log2 x\<close> the exponent \<open>e\<close> with \<open>pow2 e \<le> x < pow2 (e + 1)\<close> for a positive
  \<open>x\<close>. The rounding has no upper bound; \<open>float_overflow\<close> tells when the result is
  out of range.
\<close>

function bit_length :: "int \<Rightarrow> nat" where
  "bit_length n = (if n \<le> 0 then 0 else Suc (bit_length (n div 2)))"
  by pat_completeness auto
termination
  by (relation "measure nat") auto

declare bit_length.simps [simp del]

definition pow2 :: "int \<Rightarrow> rat" where
  "pow2 k = (if 0 \<le> k then 2 ^ nat k else 1 / 2 ^ nat (- k))"

definition floor_log2 :: "rat \<Rightarrow> int" where
  "floor_log2 x =
     (let k = int (bit_length (fst (quotient_of x))) - int (bit_length (snd (quotient_of x)))
      in if pow2 k \<le> x then k else k - 1)"

definition round_half_even :: "rat \<Rightarrow> int" where
  "round_half_even x =
     (let f = \<lfloor>x\<rfloor>; d = x - of_int f
      in if d < 1 / 2 then f else if 1 / 2 < d then f + 1 else if even f then f else f + 1)"

definition round_binary64 :: "rat \<Rightarrow> rat" where
  "round_binary64 x =
     (if x = 0 then 0
      else let q = max (floor_log2 \<bar>x\<bar> - 52) (- 1074)
           in sgn x * of_int (round_half_even (\<bar>x\<bar> / pow2 q)) * pow2 q)"

text \<open>
  The largest float is \<open>2 ^ 1024 - 2 ^ 971\<close>. A number whose magnitude reaches
  \<open>2 ^ 1024 - 2 ^ 970\<close>, half way from there to \<open>2 ^ 1024\<close>, rounds out of the range of the
  floats. The bound is written out in decimal.
\<close>

definition float_round_limit :: rat where
  "float_round_limit = 179769313486231580793728971405303415079934132710037826936173778980444968292764750946649017977587207096330286416692887910946555547851940402630657488671505820681908902000708383676273854845817711531764475730270069855571366959622842914819860834936475292719074168444365510704342711559699508093042880177904174497792"

definition float_overflow :: "rat \<Rightarrow> bool" where
  "float_overflow x = (float_round_limit \<le> \<bar>x\<bar>)"

text \<open>
  \<^verbatim>\<open>v / d\<close> for an integer constant \<open>d\<close>: true division, defined on numbers
  (\<^verbatim>\<open>bool\<close> is a subclass of \<^verbatim>\<open>int\<close>) and on nothing else. The quotient of two
  integers is the correctly rounded one, and OverflowError when it is out of range. A
  float is divided by the float of \<open>d\<close> (the source only divides by 100000, which is
  a float without rounding); there an overflow gives an infinity.
\<close>

fun truediv :: "pyval \<Rightarrow> int \<Rightarrow> error + pyval" where
  "truediv (PInt n) d =
     (if d = 0 then Inl ZeroDivisionError
      else if float_overflow (of_int n / of_int d) then Inl OverflowError
      else Inr (PFloat (round_binary64 (of_int n / of_int d))))"
| "truediv (PBool b) d =
     (if d = 0 then Inl ZeroDivisionError
      else if float_overflow ((if b then 1 else 0) / of_int d) then Inl OverflowError
      else Inr (PFloat (round_binary64 ((if b then 1 else 0) / of_int d))))"
| "truediv (PFloat r) d =
     (if d = 0 then Inl ZeroDivisionError
      else if float_overflow (r / of_int d)
           then Inr (if 0 < r / of_int d then PInf else PNegInf)
      else Inr (PFloat (round_binary64 (r / of_int d))))"
| "truediv PInf d =
     (if d = 0 then Inl ZeroDivisionError else Inr (if 0 < d then PInf else PNegInf))"
| "truediv PNegInf d =
     (if d = 0 then Inl ZeroDivisionError else Inr (if 0 < d then PNegInf else PInf))"
| "truediv PNan d = (if d = 0 then Inl ZeroDivisionError else Inr PNan)"
| "truediv _ d = Inl TypeError"

text \<open>\<^verbatim>\<open>v == 1\<close>: numbers compare by value across \<^verbatim>\<open>int\<close>, \<^verbatim>\<open>float\<close> and
  \<^verbatim>\<open>bool\<close>.\<close>

definition eq_one :: "pyval \<Rightarrow> bool" where
  "eq_one v = (v = PInt 1 \<or> v = PFloat 1 \<or> v = PBool True)"

section \<open>Strings\<close>

fun starts_with :: "string \<Rightarrow> string \<Rightarrow> bool" where
  "starts_with [] s = True"
| "starts_with (p # ps) [] = False"
| "starts_with (p # ps) (c # cs) = (p = c \<and> starts_with ps cs)"

text \<open>\<^verbatim>\<open>p in s\<close> for strings.\<close>

fun contains :: "string \<Rightarrow> string \<Rightarrow> bool" where
  "contains p [] = (p = [])"
| "contains p (c # cs) = (starts_with p (c # cs) \<or> contains p cs)"

text \<open>The character class \<^verbatim>\<open>[\d.]\<close>.\<close>

definition is_num_char :: "char \<Rightarrow> bool" where
  "is_num_char c = (c \<in> set ''0123456789.'')"

text \<open>\<^verbatim>\<open>re.search(pre + r'([\d.]+)', s)\<close> for a literal, non-empty \<open>pre\<close>: the
  leftmost place where \<open>pre\<close> is followed by a character of the class; group 1 is the
  longest run of such characters there.\<close>

fun re_search_num :: "string \<Rightarrow> string \<Rightarrow> string option" where
  "re_search_num pre [] = None"
| "re_search_num pre (c # cs) =
     (let g = takeWhile is_num_char (drop (length pre) (c # cs))
      in if starts_with pre (c # cs) \<and> g \<noteq> [] then Some g else re_search_num pre cs)"

text \<open>\<^verbatim>\<open>re.search\<close> wants a string.\<close>

fun re_search :: "string \<Rightarrow> pyval \<Rightarrow> error + string option" where
  "re_search pre (PStr s) = Inr (re_search_num pre s)"
| "re_search pre _ = Inl TypeError"

definition digit_val :: "char \<Rightarrow> int" where
  "digit_val c = of_char c - 48"

definition int_of_digits :: "string \<Rightarrow> int" where
  "int_of_digits s = foldl (\<lambda>n c. 10 * n + digit_val c) 0 s"

text \<open>The float nearest to a non-negative decimal number, an infinity when it is out
  of range.\<close>

definition to_float :: "rat \<Rightarrow> pyval" where
  "to_float x = (if float_overflow x then PInf else PFloat (round_binary64 x))"

text \<open>\<^verbatim>\<open>float(g)\<close> on a group matched by \<^verbatim>\<open>[\d.]+\<close>, the only strings the
  extractors convert: one dot at most and a digit at least, otherwise ValueError.\<close>

definition py_float :: "string \<Rightarrow> error + pyval" where
  "py_float g =
     (let ip = takeWhile (\<lambda>c. c \<noteq> CHR ''.'') g;
          rest = dropWhile (\<lambda>c. c \<noteq> CHR ''.'') g
      in case rest of
           [] \<Rightarrow> if ip = [] then Inl ValueError
                else Inr (to_float (of_int (int_of_digits ip)))
         | dot # fp \<Rightarrow>
             if CHR ''.'' \<in> set fp \<or> (ip = [] \<and> fp = []) then Inl ValueError
             else Inr (to_float
                    (of_int (int_of_digits ip) + of_int (int_of_digits fp) / 10 ^ length fp)))"

text \<open>\<^verbatim>\<open>s.split(d)\<close> for a one-character separator.\<close>

fun split_on :: "char \<Rightarrow> string \<Rightarrow> string list" where
  "split_on d [] = [[]]"
| "split_on d (c # cs) =
     (if c = d then [] # split_on d cs
      else case split_on d cs of [] \<Rightarrow> [[c]] | p # ps \<Rightarrow> (c # p) # ps)"

definition is_space :: "char \<Rightarrow> bool" where
  "is_space c = (let n = (of_char c :: nat) in n = 32 \<or> (9 \<le> n \<and> n \<le> 13) \<or> (28 \<le> n \<and> n \<le> 31))"

definition strip :: "string \<Rightarrow> string" where
  "strip s = rev (dropWhile is_space (rev (dropWhile is_space s)))"

definition lower_char :: "char \<Rightarrow> char" where
  "lower_char c =
     (case map_of (zip ''ABCDEFGHIJKLMNOPQRSTUVWXYZ'' ''abcdefghijklmnopqrstuvwxyz'') c of
        None \<Rightarrow> c
      | Some l \<Rightarrow> l)"

definition lower :: "string \<Rightarrow> string" where
  "lower s = map lower_char s"

section \<open>The metadata parser\<close>

text \<open>
  \<^verbatim>\<open>parse_info_string\<close> (identical in \<^verbatim>\<open>main.py\<close> and \<^verbatim>\<open>main_2.py\<close>).
  \<open>info_part\<close> is the body of its loop over the comma-separated parts, with
  \<^verbatim>\<open>part.split(':', 1)\<close> taken at the first colon.
\<close>

definition info_part :: "string \<Rightarrow> (string \<times> pyval) list \<Rightarrow> (string \<times> pyval) list" where
  "info_part part parsed =
     (if CHR '':'' \<in> set part \<and> CHR ''{'' \<notin> set part then
        let k = takeWhile (\<lambda>c. c \<noteq> CHR '':'') part;
            v = tl (dropWhile (\<lambda>c. c \<noteq> CHR '':'') part)
        in dict_set parsed (lower (strip k)) (PStr (strip v))
      else parsed)"

definition parse_info_string :: "pyval \<Rightarrow> error + (string \<times> pyval) list" where
  "parse_info_string info =
     (if \<not> truthy info then Inr []
      else andThen (re_search ''SCORE:'' info) (\<lambda>score_match.
           andThen (case score_match of
                      None \<Rightarrow> Inr []
                    | Some g \<Rightarrow> andThen (py_float g) (\<lambda>f. Inr [(''score'', f)])) (\<lambda>parsed.
           andThen (case info of PStr s \<Rightarrow> Inr (split_on CHR '','' s) | _ \<Rightarrow> Inl AttributeError) (\<lambda>parts.
           Inr (fold info_part parts parsed)))))"

section \<open>The normalizer: \<^verbatim>\<open>main.py\<close>\<close>

text \<open>
  An f-string converts a value with \<^verbatim>\<open>str\<close>, which is part of the language and not
  of this program: the extractors take it as the parameter \<open>fmt\<close>. It never raises on
  a loaded JSON value. \<open>str_atom\<close> is that conversion on the values whose text does not
  depend on float or container formatting; the examples below use it on such values only.
\<close>

definition digit_char :: "nat \<Rightarrow> char" where
  "digit_char d = ''0123456789'' ! d"

function show_nat :: "nat \<Rightarrow> string" where
  "show_nat n =
     (if n < 10 then [digit_char n] else show_nat (n div 10) @ [digit_char (n mod 10)])"
  by pat_completeness auto
termination
  by (relation "measure (\<lambda>n. n)") auto

fun str_atom :: "pyval \<Rightarrow> string" where
  "str_atom (PStr s) = s"
| "str_atom PNone = ''None''"
| "str_atom (PBool b) = (if b then ''True'' else ''False'')"
| "str_atom (PInt n) = (if n < 0 then CHR ''-'' # show_nat (nat (- n)) else show_nat (nat n))"
| "str_atom _ = []"

text \<open>\<^verbatim>\<open>urllib.parse.quote(s)\<close> with the default \<^verbatim>\<open>safe='/'\<close>: letters, digits
  and \<^verbatim>\<open>_.-~/\<close> stay, every other byte becomes \<^verbatim>\<open>%XX\<close>. Anything but a
  string is rejected.\<close>

definition is_safe :: "char \<Rightarrow> bool" where
  "is_safe c = (c \<in> set (''ABCDEFGHIJKLMNOPQRSTUVWXYZabcdefghijklmnopqrstuvwxyz'' @ ''0123456789_.-~/''))"

definition hex_char :: "nat \<Rightarrow> char" where
  "hex_char d = ''0123456789ABCDEF'' ! d"

definition quote_char :: "char \<Rightarrow> string" where
  "quote_char c =
     (if is_safe c then [c]
      else [CHR ''%'', hex_char (of_char c div 16), hex_char (of_char c mod 16)])"

definition quote :: "string \<Rightarrow> string" where
  "quote s = concat (map quote_char s)"

fun py_quote :: "pyval \<Rightarrow> error + string" where
  "py_quote (PStr s) = Inr (quote s)"
| "py_quote _ = Inl TypeError"

text \<open>\<^verbatim>\<open>v.replace(' ', '-')\<close>: a method of strings only.\<close>

fun replace_spaces :: "pyval \<Rightarrow> error + string" where
  "replace_spaces (PStr s) = Inr (map (\<lambda>c. if c = CHR '' '' then CHR ''-'' else c) s)"
| "replace_spaces _ = Inl AttributeError"

definition cdn :: string where
  "cdn = ''https://down-id.img.susercontent.com/file/''"

text \<open>A \<^verbatim>\<open>for\<close> loop whose body appends to the result list: \<open>body x\<close> is what
  one iteration appends (nothing after \<^verbatim>\<open>continue\<close> or a failed filter), and an
  exception in an iteration leaves the function, as none of the extractors catches any.\<close>

fun for_each :: "('a \<Rightarrow> error + 'b list) \<Rightarrow> 'a list \<Rightarrow> error + 'b list" where
  "for_each body [] = Inr []"
| "for_each body (x # xs) =
     andThen (body x) (\<lambda>rs. andThen (for_each body xs) (\<lambda>rest. Inr (rs @ rest)))"

subsection \<open>Top products\<close>

text \<open>The body of the inner loop of \<^verbatim>\<open>extract_shopee_products\<close>.\<close>

definition top_product_item :: "(pyval \<Rightarrow> string) \<Rightarrow> pyval \<Rightarrow> error + pyval list" where
  "top_product_item fmt item =
     andThen (get item ''info'' (PStr [])) (\<lambda>info.
     andThen (parse_info_string info) (\<lambda>info_meta.
     andThen (get item ''images'' (PList [])) (\<lambda>image_ids.
     andThen (iter image_ids) (\<lambda>ids.
     let image_urls = map (\<lambda>img_id. PStr (cdn @ fmt img_id)) ids in
     andThen (get item ''knodeid'' PNone) (\<lambda>knodeid.
     andThen (get item ''key'' PNone) (\<lambda>key.
     let cat_id = py_or knodeid key in
     andThen (if truthy cat_id then py_quote cat_id else Inr []) (\<lambda>encoded_cat_id.
     let product_url = ''https://shopee.co.id/top_products?catId='' @ encoded_cat_id in
     andThen (get item ''name'' PNone) (\<lambda>name.
     andThen (get item ''count'' PNone) (\<lambda>count.
     Inr [PDict
       [(''name'', name),
        (''sold_count'', count),
        (''label'', PStr ''Top Product''),
        (''product_id'', key),
        (''score'', dget info_meta ''score'' PNone),
        (''images'', PList image_urls),
        (''primary_image'', case image_urls of [] \<Rightarrow> PNone | u # us \<Rightarrow> u),
        (''type'', PStr ''Top Product''),
        (''url'', PStr product_url)]])))))))))"

text \<open>The body of the outer loop, over the sections.\<close>

definition top_product_section :: "(pyval \<Rightarrow> string) \<Rightarrow> pyval \<Rightarrow> error + pyval list" where
  "top_product_section fmt section =
     andThen (get section ''data'' (PDict [])) (\<lambda>section_data.
     andThen (get section_data ''top_product'' PNone) (\<lambda>top_products.
     if truthy top_products
     then andThen (iter top_products) (for_each (top_product_item fmt))
     else Inr []))"

definition extract_shopee_products :: "(pyval \<Rightarrow> string) \<Rightarrow> pyval \<Rightarrow> error + pyval list" where
  "extract_shopee_products fmt data =
     andThen (get data ''data'' (PDict [])) (\<lambda>d.
     andThen (get d ''sections'' (PList [])) (\<lambda>sections.
     andThen (iter sections) (for_each (top_product_section fmt))))"

subsection \<open>Suggestions\<close>

definition suggestion_item :: "(pyval \<Rightarrow> string) \<Rightarrow> pyval \<Rightarrow> error + pyval list" where
  "suggestion_item fmt q =
     andThen (get q ''text'' (PStr [])) (\<lambda>text.
     andThen (get q ''image'' PNone) (\<lambda>image.
     andThen (get q ''images'' PNone) (\<lambda>images.
     andThen (if truthy image then Inr image
              else if truthy images then index0 images else Inr PNone) (\<lambda>img_id.
     let primary_image = (if truthy img_id then PStr (cdn @ fmt img_id) else PNone) in
     andThen (py_quote text) (\<lambda>encoded_keyword.
     let search_url = ''https://shopee.co.id/search?keyword='' @ encoded_keyword in
     andThen (get q ''tracking'' (PStr [])) (\<lambda>tracking.
     andThen (re_search (CHR 0x22 # ''rank_score'' @ [CHR 0x22, CHR '':'']) tracking) (\<lambda>score_match.
     andThen (case score_match of
                None \<Rightarrow> Inr PNone
              | Some g \<Rightarrow> py_float g) (\<lambda>score.
     andThen (get q ''item_ids'' (PList [PNone])) (\<lambda>item_ids.
     andThen (index0 item_ids) (\<lambda>product_id.
     Inr [PDict
       [(''name'', text),
        (''sold_count'', PNone),
        (''label'', PStr ''Suggestion''),
        (''product_id'', product_id),
        (''score'', score),
        (''images'', if truthy primary_image then PList [primary_image] else PList []),
        (''primary_image'', primary_image),
        (''type'', PStr ''Suggestion''),
        (''url'', PStr search_url)]]))))))))))"

definition extract_suggestions :: "(pyval \<Rightarrow> string) \<Rightarrow> pyval \<Rightarrow> error + pyval list" where
  "extract_suggestions fmt data =
     andThen (get data ''data'' (PDict [])) (\<lambda>d.
     andThen (get d ''queries'' (PList [])) (\<lambda>queries.
     andThen (iter queries) (for_each (suggestion_item fmt))))"

subsection \<open>Categories\<close>

definition category_item :: "(pyval \<Rightarrow> string) \<Rightarrow> pyval \<Rightarrow> error + pyval list" where
  "category_item fmt c =
     andThen (get c ''level'' PNone) (\<lambda>level.
     if eq_one level then
       andThen (get c ''display_name'' PNone) (\<lambda>display_name.
       andThen (get c ''name'' PNone) (\<lambda>name.
       andThen (get c ''catid'' PNone) (\<lambda>catid.
       andThen (get c ''image'' PNone) (\<lambda>image.
       andThen (get c ''display_name'' (PStr [])) (\<lambda>display_name'.
       andThen (replace_spaces display_name') (\<lambda>slug.
       andThen (py_quote (PStr slug)) (\<lambda>encoded.
       Inr [PDict
         [(''name'', py_or display_name name),
          (''id'', catid),
          (''image'', if truthy image then PStr (cdn @ fmt image) else PNone),
          (''url'', PStr (''https://shopee.co.id/'' @ encoded @ ''-cat.'' @ fmt catid))]])))))))
     else Inr [])"

definition extract_categories :: "(pyval \<Rightarrow> string) \<Rightarrow> pyval \<Rightarrow> error + pyval list" where
  "extract_categories fmt data =
     andThen (get data ''data'' (PDict [])) (\<lambda>d.
     andThen (get d ''category_list'' (PList [])) (\<lambda>cat_list.
     andThen (iter cat_list) (for_each (category_item fmt))))"

subsection \<open>Flash sales\<close>

definition flash_sale_item :: "(pyval \<Rightarrow> string) \<Rightarrow> pyval \<Rightarrow> error + pyval list" where
  "flash_sale_item fmt it =
     andThen (get it ''price'' PNone) (\<lambda>p.
     let raw_price = py_or p (PInt 0) in
     andThen (get it ''price_before_discount'' PNone) (\<lambda>pbd.
     let raw_old_price = py_or pbd (PInt 0) in
     andThen (truediv raw_price 100000) (\<lambda>price.
     andThen (truediv raw_old_price 100000) (\<lambda>old_price.
     andThen (get it ''discount'' (PStr [])) (\<lambda>discount.
     andThen (get it ''image'' PNone) (\<lambda>img_id.
     let primary_image = (if truthy img_id then PStr (cdn @ fmt img_id) else PNone) in
     andThen (get it ''itemid'' PNone) (\<lambda>itemid.
     andThen (get it ''shopid'' PNone) (\<lambda>shopid.
     let product_url = ''https://shopee.co.id/product-i.'' @ fmt shopid @ ''.'' @ fmt itemid in
     andThen (get it ''name'' PNone) (\<lambda>name.
     andThen (get it ''historical_sold'' PNone) (\<lambda>historical_sold.
     andThen (get it ''item_rating'' (PDict [])) (\<lambda>item_rating.
     andThen (get item_rating ''rating_star'' PNone) (\<lambda>rating_star.
     Inr [PDict
       [(''name'', name),
        (''price'', price),
        (''old_price'', old_price),
        (''discount'', discount),
        (''sold_count'', historical_sold),
        (''label'', PStr ''Flash Sale''),
        (''product_id'', PStr (fmt shopid @ ''.'' @ fmt itemid)),
        (''score'', rating_star),
        (''images'', if truthy primary_image then PList [primary_image] else PList []),
        (''primary_image'', primary_image),
        (''type'', PStr ''Flash Sale''),
        (''url'', PStr product_url)]]))))))))))))"

definition extract_flash_sales :: "(pyval \<Rightarrow> string) \<Rightarrow> pyval \<Rightarrow> error + pyval list" where
  "extract_flash_sales fmt data =
     andThen (get data ''data'' (PDict [])) (\<lambda>d.
     andThen (get d ''items'' (PList [])) (\<lambda>items.
     andThen (iter items) (for_each (flash_sale_item fmt))))"

subsection \<open>Daily discover\<close>

text \<open>The part of the loop body after \<^verbatim>\<open>if not it: continue\<close>.\<close>

definition daily_discover_record :: "(pyval \<Rightarrow> string) \<Rightarrow> pyval \<Rightarrow> error + pyval list" where
  "daily_discover_record fmt it =
     andThen (get it ''item_card_display_price'' (PDict [])) (\<lambda>display_price.
     andThen (get display_price ''price'' PNone) (\<lambda>p.
     let raw_price = py_or p (PInt 0) in
     andThen (get display_price ''strikethrough_price'' PNone) (\<lambda>sp.
     let raw_old_price = py_or sp (PInt 0) in
     andThen (truediv raw_price 100000) (\<lambda>price.
     andThen (truediv raw_old_price 100000) (\<lambda>old_price.
     andThen (get display_price ''discount_text'' (PStr [])) (\<lambda>discount.
     andThen (get it ''image'' PNone) (\<lambda>img_id.
     let primary_image = (if truthy img_id then PStr (cdn @ fmt img_id) else PNone) in
     andThen (get it ''itemid'' PNone) (\<lambda>itemid.
     andThen (get it ''shopid'' PNone) (\<lambda>shopid.
     let product_url = ''https://shopee.co.id/product-i.'' @ fmt shopid @ ''.'' @ fmt itemid in
     andThen (get it ''name'' PNone) (\<lambda>name.
     andThen (get it ''historical_sold'' PNone) (\<lambda>historical_sold.
     andThen (get it ''item_rating'' (PDict [])) (\<lambda>item_rating.
     andThen (get item_rating ''rating_star'' PNone) (\<lambda>rating_star.
     andThen (get it ''images'' (PList [])) (\<lambda>images.
     andThen (slice 3 images) (\<lambda>first3.
     andThen (iter first3) (\<lambda>imgs.
     Inr [PDict
       [(''name'', name),
        (''price'', price),
        (''old_price'', old_price),
        (''discount'', discount),
        (''sold_count'', py_or historical_sold (PInt 0)),
        (''label'', PStr ''Daily Discover''),
        (''product_id'', PStr (fmt shopid @ ''.'' @ fmt itemid)),
        (''score'', rating_star),
        (''images'', PList (map (\<lambda>img. PStr (cdn @ fmt img)) imgs)),
        (''primary_image'', primary_image),
        (''type'', PStr ''Daily Discover''),
        (''url'', PStr product_url)]]))))))))))))))))"

definition daily_discover_feed :: "(pyval \<Rightarrow> string) \<Rightarrow> pyval \<Rightarrow> error + pyval list" where
  "daily_discover_feed fmt feed =
     andThen (get feed ''type'' PNone) (\<lambda>ty.
     if ty = PStr ''item_card'' then
       andThen (get feed ''item_card'' (PDict [])) (\<lambda>item_card.
       andThen (get item_card ''item'' (PDict [])) (\<lambda>it.
       if \<not> truthy it then Inr [] else daily_discover_record fmt it))
     else Inr [])"

definition extract_daily_discover :: "(pyval \<Rightarrow> string) \<Rightarrow> pyval \<Rightarrow> error + pyval list" where
  "extract_daily_discover fmt data =
     andThen (get data ''data'' (PDict [])) (\<lambda>d.
     andThen (get d ''feeds'' (PList [])) (\<lambda>feeds.
     andThen (iter feeds) (for_each (daily_discover_feed fmt))))"

subsection \<open>Loading a persisted artifact\<close>

text \<open>\<^verbatim>\<open>load_json_data\<close>. \<open>read_json\<close> is \<^verbatim>\<open>open\<close> followed by
  \<^verbatim>\<open>json.load\<close> on the file system of the run: an exception when the file is
  missing, unreadable or not JSON, the parsed value otherwise.\<close>

definition load_json_data :: "(string \<Rightarrow> error + pyval) \<Rightarrow> string \<Rightarrow> pyval" where
  "load_json_data read_json file_path =
     (case read_json file_path of Inl e \<Rightarrow> PDict [] | Inr v \<Rightarrow> v)"

section \<open>The normalizer: \<^verbatim>\<open>main_2.py\<close>\<close>

text \<open>The flash-sale and daily-discover extractors as \<^verbatim>\<open>main_2.py\<close> writes them:
  each price is fetched and divided in one expression, and the remaining lookups sit
  inside the dictionary display.\<close>

definition flash_sale_item_2 :: "(pyval \<Rightarrow> string) \<Rightarrow> pyval \<Rightarrow> error + pyval list" where
  "flash_sale_item_2 fmt it =
     andThen (get it ''price'' PNone) (\<lambda>p.
     andThen (truediv (py_or p (PInt 0)) 100000) (\<lambda>price.
     andThen (get it ''price_before_discount'' PNone) (\<lambda>pbd.
     andThen (truediv (py_or pbd (PInt 0)) 100000) (\<lambda>old_price.
     andThen (get it ''image'' PNone) (\<lambda>img_id.
     let primary_image = (if truthy img_id then PStr (cdn @ fmt img_id) else PNone) in
     andThen (get it ''itemid'' PNone) (\<lambda>itemid.
     andThen (get it ''shopid'' PNone) (\<lambda>shopid.
     andThen (get it ''name'' PNone) (\<lambda>name.
     andThen (get it ''discount'' (PStr [])) (\<lambda>discount.
     andThen (get it ''historical_sold'' PNone) (\<lambda>historical_sold.
     andThen (get it ''item_rating'' (PDict [])) (\<lambda>item_rating.
     andThen (get item_rating ''rating_star'' PNone) (\<lambda>rating_star.
     Inr [PDict
       [(''name'', name),
        (''price'', price),
        (''old_price'', old_price),
        (''discount'', discount),
        (''sold_count'', historical_sold),
        (''label'', PStr ''Flash Sale''),
        (''product_id'', PStr (fmt shopid @ ''.'' @ fmt itemid)),
        (''score'', rating_star),
        (''images'', if truthy primary_image then PList [primary_image] else PList []),
        (''primary_image'', primary_image),
        (''type'', PStr ''Flash Sale''),
        (''url'', PStr (''https://shopee.co.id/product-i.'' @ fmt shopid @ ''.'' @ fmt itemid))]]))))))))))))"

definition extract_flash_sales_2 :: "(pyval \<Rightarrow> string) \<Rightarrow> pyval \<Rightarrow> error + pyval list" where
  "extract_flash_sales_2 fmt data =
     andThen (get data ''data'' (PDict [])) (\<lambda>d.
     andThen (get d ''items'' (PList [])) (\<lambda>items.
     andThen (iter items) (for_each (flash_sale_item_2 fmt))))"

definition daily_discover_record_2 :: "(pyval \<Rightarrow> string) \<Rightarrow> pyval \<Rightarrow> error + pyval list" where
  "daily_discover_record_2 fmt it =
     andThen (get it ''item_card_display_price'' (PDict [])) (\<lambda>dp.
     andThen (get dp ''price'' PNone) (\<lambda>p.
     andThen (truediv (py_or p (PInt 0)) 100000) (\<lambda>price.
     andThen (get dp ''strikethrough_price'' PNone) (\<lambda>sp.
     andThen (truediv (py_or sp (PInt 0)) 100000) (\<lambda>old_price.
     andThen (get it ''image'' PNone) (\<lambda>img_id.
     let primary_image = (if truthy img_id then PStr (cdn @ fmt img_id) else PNone) in
     andThen (get it ''itemid'' PNone) (\<lambda>itemid.
     andThen (get it ''shopid'' PNone) (\<lambda>shopid.
     andThen (get it ''name'' PNone) (\<lambda>name.
     andThen (get dp ''discount_text'' (PStr [])) (\<lambda>discount.
     andThen (get it ''historical_sold'' PNone) (\<lambda>historical_sold.
     andThen (get it ''item_rating'' (PDict [])) (\<lambda>item_rating.
     andThen (get item_rating ''rating_star'' PNone) (\<lambda>rating_star.
     andThen (get it ''images'' (PList [])) (\<lambda>images.
     andThen (slice 3 images) (\<lambda>first3.
     andThen (iter first3) (\<lambda>imgs.
     Inr [PDict
       [(''name'', name),
        (''price'', price),
        (''old_price'', old_price),
        (''discount'', discount),
        (''sold_count'', py_or historical_sold (PInt 0)),
        (''label'', PStr ''Daily Discover''),
        (''product_id'', PStr (fmt shopid @ ''.'' @ fmt itemid)),
        (''score'', rating_star),
        (''images'', PList (map (\<lambda>img. PStr (cdn @ fmt img)) imgs)),
        (''primary_image'', primary_image),
        (''type'', PStr ''Daily Discover''),
        (''url'', PStr (''https://shopee.co.id/product-i.'' @ fmt shopid @ ''.'' @ fmt itemid))]]))))))))))))))))"

definition daily_discover_feed_2 :: "(pyval \<Rightarrow> string) \<Rightarrow> pyval \<Rightarrow> error + pyval list" where
  "daily_discover_feed_2 fmt feed =
     andThen (get feed ''type'' PNone) (\<lambda>ty.
     if ty = PStr ''item_card'' then
       andThen (get feed ''item_card'' (PDict [])) (\<lambda>item_card.
       andThen (get item_card ''item'' (PDict [])) (\<lambda>it.
       if \<not> truthy it then Inr [] else daily_discover_record_2 fmt it))
     else Inr [])"

definition extract_daily_discover_2 :: "(pyval \<Rightarrow> string) \<Rightarrow> pyval \<Rightarrow> error + pyval list" where
  "extract_daily_discover_2 fmt data =
     andThen (get data ''data'' (PDict [])) (\<lambda>d.
     andThen (get d ''feeds'' (PList [])) (\<lambda>feeds.
     andThen (iter feeds) (for_each (daily_discover_feed_2 fmt))))"

section \<open>The session harvester: \<^verbatim>\<open>cek_shopee.py\<close>\<close>

text \<open>
  The state that \<^verbatim>\<open>get_shopee_tokens_persistent\<close> shares with its response observer:
  the dictionary \<^verbatim>\<open>harvested_data\<close>, the event \<^verbatim>\<open>request_captured\<close> and the
  artifact \<^verbatim>\<open>response_shopee.json\<close>. One event loop runs both, so the observer runs
  to its end between two steps of the scroll loop.
\<close>

record harvested =
  data_url :: "string option"
  data_headers :: "(string \<times> string) list"
  data_cookies :: "(string \<times> string) list"

record harvester =
  harvested_data :: harvested
  request_captured :: bool
  response_shopee_json :: "pyval option"

record response =
  resp_url :: string
  request_headers :: "(string \<times> string) list"
  resp_json :: "pyval option"

definition initial_harvester :: "pyval option \<Rightarrow> harvester" where
  "initial_harvester artifact =
     \<lparr>harvested_data = \<lparr>data_url = None, data_headers = [], data_cookies = []\<rparr>,
      request_captured = False,
      response_shopee_json = artifact\<rparr>"

text \<open>\<^verbatim>\<open>not harvested_data["url"]\<close>: the entry is \<^verbatim>\<open>None\<close> or an empty string.\<close>

definition url_unset :: "harvested \<Rightarrow> bool" where
  "url_unset h = (case data_url h of None \<Rightarrow> True | Some u \<Rightarrow> u = [])"

text \<open>\<^verbatim>\<open>{c['name']: c['value'] for c in cookies}\<close>.\<close>

definition cookie_dict :: "(string \<times> string) list \<Rightarrow> (string \<times> string) list" where
  "cookie_dict cookies = fold (\<lambda>c d. dict_set d (fst c) (snd c)) cookies []"

text \<open>
  \<^verbatim>\<open>handle_response\<close>. \<open>jar\<close> is what \<^verbatim>\<open>context.cookies()\<close> returns when the
  observer runs, \<open>None\<close> when that call raises (the observer then ends with the URL
  and headers already stored). \<open>resp_json\<close> is \<open>None\<close> when \<^verbatim>\<open>response.json()\<close>
  raises, which the observer ignores.
\<close>

definition handle_response ::
  "(string \<times> string) list option \<Rightarrow> response \<Rightarrow> harvester \<Rightarrow> harvester" where
  "handle_response jar response st =
     (if contains ''api/v4/recommend/recommend'' (resp_url response) then
        if contains ''bundle=top_products_homepage'' (resp_url response)
           \<or> url_unset (harvested_data st)
        then
          let st1 = st\<lparr>harvested_data := (harvested_data st)
                       \<lparr>data_url := Some (resp_url response),
                        data_headers := request_headers response\<rparr>\<rparr>
          in case jar of
               None \<Rightarrow> st1
             | Some cookies \<Rightarrow>
                 let st2 = st1\<lparr>harvested_data := (harvested_data st1)
                               \<lparr>data_cookies := cookie_dict cookies\<rparr>\<rparr>;
                     st3 = (case resp_json response of
                              None \<Rightarrow> st2
                            | Some resp \<Rightarrow> st2\<lparr>response_shopee_json := Some resp\<rparr>)
                 in st3\<lparr>request_captured := True\<rparr>
        else st
      else st)"

text \<open>The states the observer can produce during a run.\<close>

inductive reachable :: "harvester \<Rightarrow> bool" where
  start: "reachable (initial_harvester artifact)"
| observe: "reachable st \<Longrightarrow> reachable (handle_response jar response st)"

text \<open>
  The scroll loop. What happens while iteration \<open>i\<close> is suspended is given by the
  environment: whether \<^verbatim>\<open>page.evaluate\<close> raises (the enclosing \<^verbatim>\<open>try\<close> then ends
  the loop), and the responses observed, in order, until the following
  \<^verbatim>\<open>asyncio.sleep(2)\<close> is over. The loop returns the offsets it has passed to
  \<^verbatim>\<open>window.scrollBy\<close> and the state it leaves.
\<close>

record tick =
  evaluate_raises :: bool
  arrivals :: "((string \<times> string) list option \<times> response) list"

definition deliver ::
  "((string \<times> string) list option \<times> response) list \<Rightarrow> harvester \<Rightarrow> harvester" where
  "deliver events st = fold (\<lambda>ev. handle_response (fst ev) (snd ev)) events st"

fun scroll_steps :: "(nat \<Rightarrow> tick) \<Rightarrow> nat list \<Rightarrow> harvester \<Rightarrow> nat list \<times> harvester" where
  "scroll_steps env [] st = ([], st)"
| "scroll_steps env (i # rest) st =
     (if request_captured st then ([], st)
      else
        let scroll_val = 600 + i * 200 in
        if evaluate_raises (env i) then ([scroll_val], st)
        else
          let r = scroll_steps env rest (deliver (arrivals (env i)) st)
          in (scroll_val # fst r, snd r))"

definition scroll_loop :: "(nat \<Rightarrow> tick) \<Rightarrow> harvester \<Rightarrow> nat list \<times> harvester" where
  "scroll_loop env st = scroll_steps env [0..<15] st"

section \<open>The replay client: \<^verbatim>\<open>fetch_direct.py\<close>\<close>

record http_response =
  status_code :: int
  body_text :: string
  body_json :: "pyval option"

text \<open>What the client prints, without the fixed wording.\<close>

datatype message =
    PrepNotFound
  | Sending pyval
  | Fetched nat
  | Saved
  | StatusCode int
  | ResponseExcerpt string
  | Exception error

text \<open>\<^verbatim>\<open>prep["url"]\<close>: a missing key raises, and only a dictionary takes a string
  as index.\<close>

fun subscript :: "pyval \<Rightarrow> string \<Rightarrow> error + pyval" where
  "subscript (PDict kv) k = (case map_of kv k of None \<Rightarrow> Inl KeyError | Some v \<Rightarrow> Inr v)"
| "subscript _ k = Inl TypeError"

text \<open>The count of products over \<^verbatim>\<open>data.sections[].data.top_product\<close>.\<close>

fun count_sections :: "pyval list \<Rightarrow> nat \<Rightarrow> error + nat" where
  "count_sections [] product_count = Inr product_count"
| "count_sections (section # rest) product_count =
     andThen (get section ''data'' (PDict [])) (\<lambda>section_data.
     andThen (get section_data ''top_product'' (PList [])) (\<lambda>prods.
     andThen (len prods) (\<lambda>n.
     count_sections rest (product_count + n))))"

definition count_products :: "pyval \<Rightarrow> error + nat" where
  "count_products data =
     andThen (get data ''data'' (PDict [])) (\<lambda>d.
     andThen (get d ''sections'' (PList [])) (\<lambda>sections.
     andThen (iter sections) (\<lambda>ss. count_sections ss 0)))"

text \<open>
  \<^verbatim>\<open>fetch_shopee_direct\<close>. \<open>prep_file\<close> is the parsed content of
  \<^verbatim>\<open>shopee_prep.json\<close> (\<open>None\<close> when the file does not exist), \<open>client_get\<close> the
  outcome of the GET request, \<open>artifact\<close> the content of \<^verbatim>\<open>response_shopee.json\<close>
  before the call. The result is what was printed and the content of the artifact
  afterwards; \<open>Inl\<close> is an exception that leaves the function. \<open>body_text\<close> is
  \<^verbatim>\<open>response.text\<close> and \<open>body_json\<close> is \<^verbatim>\<open>response.json()\<close>, \<open>None\<close> when it
  raises (a ValueError).
\<close>

definition fetch_shopee_direct ::
  "pyval option \<Rightarrow> (pyval \<Rightarrow> pyval \<Rightarrow> pyval \<Rightarrow> error + http_response) \<Rightarrow> pyval option
     \<Rightarrow> error + message list \<times> pyval option" where
  "fetch_shopee_direct prep_file client_get artifact =
     (case prep_file of
        None \<Rightarrow> Inr ([PrepNotFound], artifact)
      | Some prep \<Rightarrow>
          andThen (subscript prep ''url'') (\<lambda>url.
          andThen (subscript prep ''headers'') (\<lambda>headers.
          andThen (subscript prep ''cookies'') (\<lambda>cookies.
          andThen (slice 60 url) (\<lambda>shown.
          case client_get url headers cookies of
            Inl e \<Rightarrow> Inr ([Sending shown, Exception e], artifact)
          | Inr response \<Rightarrow>
              if status_code response = 200 then
                case body_json response of
                  None \<Rightarrow> Inr ([Sending shown, Exception ValueError], artifact)
                | Some data \<Rightarrow>
                    (case count_products data of
                       Inl e \<Rightarrow> Inr ([Sending shown, Exception e], artifact)
                     | Inr product_count \<Rightarrow>
                         Inr ([Sending shown, Fetched product_count, Saved], Some data))
              else
                Inr ([Sending shown, StatusCode (status_code response),
                      ResponseExcerpt (take 200 (body_text response))], artifact))))))"

section \<open>Reading payloads and records\<close>

text \<open>The value a produced record has under a key (\<open>None\<close> when it has no such key).\<close>

definition field :: "pyval \<Rightarrow> string \<Rightarrow> pyval option" where
  "field r k = (case r of PDict kv \<Rightarrow> map_of kv k | _ \<Rightarrow> None)"

text \<open>What the loop of an extractor runs over: \<^verbatim>\<open>data.get('data', {}).get(key, [])\<close>,
  iterated.\<close>

definition container :: "pyval \<Rightarrow> string \<Rightarrow> error + pyval list" where
  "container data key =
     andThen (get data ''data'' (PDict [])) (\<lambda>d. andThen (get d key (PList [])) iter)"

text \<open>The payload that has the list \<open>xs\<close> at \<^verbatim>\<open>data.<key>\<close> and nothing else.\<close>

definition payload :: "string \<Rightarrow> pyval list \<Rightarrow> pyval" where
  "payload key xs = PDict [(''data'', PDict [(key, PList xs)])]"

text \<open>The invariant of the data model in the words of the specification:
  \<^verbatim>\<open>primary_image\<close> is \<^verbatim>\<open>images[0]\<close> when \<^verbatim>\<open>images\<close> is non-empty, else absent.\<close>

definition primary_image_invariant :: "pyval \<Rightarrow> bool" where
  "primary_image_invariant r =
     (case field r ''images'' of
        Some (PList []) \<Rightarrow> field r ''primary_image'' = Some PNone
      | Some (PList (u # us)) \<Rightarrow> field r ''primary_image'' = Some u
      | _ \<Rightarrow> False)"

section \<open>Example payloads\<close>

subsection \<open>Endpoint payloads and the records expected from them\<close>

definition example_top_item :: pyval where
  "example_top_item =
     PDict [(''name'', PStr ''Kaos''), (''key'', PStr ''k 1''), (''count'', PInt 120),
            (''images'', PList [PStr ''abc'', PStr ''def''])]"

definition example_top_section :: pyval where
  "example_top_section = PDict [(''data'', PDict [(''top_product'', PList [example_top_item])])]"

definition example_empty_section :: pyval where
  "example_empty_section = PDict [(''data'', PDict [(''top_product'', PList [])])]"

definition example_top_payload :: pyval where
  "example_top_payload = payload ''sections'' [example_top_section]"

definition example_top_record :: pyval where
  "example_top_record = PDict
     [(''name'', PStr ''Kaos''), (''sold_count'', PInt 120),
      (''label'', PStr ''Top Product''), (''product_id'', PStr ''k 1''),
      (''score'', PNone),
      (''images'', PList [PStr ''https://down-id.img.susercontent.com/file/abc'',
                          PStr ''https://down-id.img.susercontent.com/file/def'']),
      (''primary_image'', PStr ''https://down-id.img.susercontent.com/file/abc''),
      (''type'', PStr ''Top Product''),
      (''url'', PStr ''https://shopee.co.id/top_products?catId=k%201'')]"

definition example_query :: pyval where
  "example_query =
     PDict [(''text'', PStr ''kaos pria''), (''images'', PList [PStr ''abc'']),
            (''item_ids'', PList [PInt 9])]"

definition example_suggestion_payload :: pyval where
  "example_suggestion_payload = payload ''queries'' [example_query]"

definition example_suggestion_record :: pyval where
  "example_suggestion_record = PDict
     [(''name'', PStr ''kaos pria''), (''sold_count'', PNone),
      (''label'', PStr ''Suggestion''), (''product_id'', PInt 9),
      (''score'', PNone),
      (''images'', PList [PStr ''https://down-id.img.susercontent.com/file/abc'']),
      (''primary_image'', PStr ''https://down-id.img.susercontent.com/file/abc''),
      (''type'', PStr ''Suggestion''),
      (''url'', PStr ''https://shopee.co.id/search?keyword=kaos%20pria'')]"

definition example_category :: pyval where
  "example_category =
     PDict [(''level'', PInt 1), (''display_name'', PStr ''Elektronik Rumah''),
            (''catid'', PInt 123), (''image'', PStr ''cat'')]"

definition example_subcategory :: pyval where
  "example_subcategory =
     PDict [(''level'', PInt 2), (''display_name'', PStr ''Kabel''), (''catid'', PInt 124)]"

definition example_category_payload :: pyval where
  "example_category_payload = payload ''category_list'' [example_category, example_subcategory]"

definition example_category_record :: pyval where
  "example_category_record = PDict
     [(''name'', PStr ''Elektronik Rumah''), (''id'', PInt 123),
      (''image'', PStr ''https://down-id.img.susercontent.com/file/cat''),
      (''url'', PStr ''https://shopee.co.id/Elektronik-Rumah-cat.123'')]"

definition example_flash_item :: "(string \<times> pyval) list" where
  "example_flash_item =
     [(''itemid'', PInt 5), (''shopid'', PInt 77), (''name'', PStr ''Kaos''),
      (''price'', PInt 12345600), (''price_before_discount'', PInt 20000000),
      (''discount'', PStr ''38%''), (''image'', PStr ''abc'')]"

definition example_flash_payload :: pyval where
  "example_flash_payload = payload ''items'' [PDict example_flash_item]"

definition example_flash_record :: pyval where
  "example_flash_record = PDict
     [(''name'', PStr ''Kaos''), (''price'', PFloat (8687443681197687 / 70368744177664)),
      (''old_price'', PFloat 200), (''discount'', PStr ''38%''),
      (''sold_count'', PNone), (''label'', PStr ''Flash Sale''),
      (''product_id'', PStr ''77.5''), (''score'', PNone),
      (''images'', PList [PStr ''https://down-id.img.susercontent.com/file/abc'']),
      (''primary_image'', PStr ''https://down-id.img.susercontent.com/file/abc''),
      (''type'', PStr ''Flash Sale''),
      (''url'', PStr ''https://shopee.co.id/product-i.77.5'')]"

definition example_discover_item :: "(string \<times> pyval) list" where
  "example_discover_item =
     [(''itemid'', PInt 5), (''shopid'', PInt 77), (''name'', PStr ''Kaos''),
      (''item_card_display_price'',
         PDict [(''price'', PInt 12345600), (''strikethrough_price'', PInt 20000000)]),
      (''image'', PStr ''abc''), (''images'', PList [PStr ''abc'', PStr ''def''])]"

definition discover_feed :: "(string \<times> pyval) list \<Rightarrow> pyval" where
  "discover_feed item =
     PDict [(''type'', PStr ''item_card''), (''item_card'', PDict [(''item'', PDict item)])]"

definition discover_payload :: "(string \<times> pyval) list \<Rightarrow> pyval" where
  "discover_payload item = payload ''feeds'' [discover_feed item]"

definition example_discover_record :: pyval where
  "example_discover_record = PDict
     [(''name'', PStr ''Kaos''), (''price'', PFloat (8687443681197687 / 70368744177664)),
      (''old_price'', PFloat 200), (''discount'', PStr []),
      (''sold_count'', PInt 0), (''label'', PStr ''Daily Discover''),
      (''product_id'', PStr ''77.5''), (''score'', PNone),
      (''images'', PList [PStr ''https://down-id.img.susercontent.com/file/abc'',
                          PStr ''https://down-id.img.susercontent.com/file/def'']),
      (''primary_image'', PStr ''https://down-id.img.susercontent.com/file/abc''),
      (''type'', PStr ''Daily Discover''),
      (''url'', PStr ''https://shopee.co.id/product-i.77.5'')]"

definition example_no_gallery_item :: "(string \<times> pyval) list" where
  "example_no_gallery_item =
     [(''itemid'', PInt 5), (''shopid'', PInt 77), (''name'', PStr ''Kaos''),
      (''image'', PStr ''abc'')]"

definition example_no_gallery_record :: pyval where
  "example_no_gallery_record = PDict
     [(''name'', PStr ''Kaos''), (''price'', PFloat 0),
      (''old_price'', PFloat 0), (''discount'', PStr []),
      (''sold_count'', PInt 0), (''label'', PStr ''Daily Discover''),
      (''product_id'', PStr ''77.5''), (''score'', PNone),
      (''images'', PList []),
      (''primary_image'', PStr ''https://down-id.img.susercontent.com/file/abc''),
      (''type'', PStr ''Daily Discover''),
      (''url'', PStr ''https://shopee.co.id/product-i.77.5'')]"

text \<open>Containers with one element on which the loop body raises, followed by a
  well-formed one.\<close>

definition example_bad_queries :: "pyval list" where
  "example_bad_queries =
     [PDict [(''text'', PStr ''kaos''), (''item_ids'', PList [])],
      PDict [(''text'', PStr ''sepatu''), (''item_ids'', PList [PInt 9])]]"

definition example_bad_items :: "pyval list" where
  "example_bad_items = [PDict [(''price'', PStr ''12.000'')], PDict example_flash_item]"

text \<open>Flash-sale items with the raw price 1 and with a raw price too large for a float.\<close>

definition unit_price_item :: "(string \<times> pyval) list" where
  "unit_price_item = [(''itemid'', PInt 5), (''shopid'', PInt 77), (''price'', PInt 1)]"

definition unit_price_record :: pyval where
  "unit_price_record = PDict
     [(''name'', PNone), (''price'', PFloat (5902958103587057 / 590295810358705651712)),
      (''old_price'', PFloat 0), (''discount'', PStr []), (''sold_count'', PNone),
      (''label'', PStr ''Flash Sale''), (''product_id'', PStr ''77.5''),
      (''score'', PNone), (''images'', PList []),
      (''primary_image'', PNone), (''type'', PStr ''Flash Sale''),
      (''url'', PStr ''https://shopee.co.id/product-i.77.5'')]"

definition huge_price :: int where
  "huge_price = 100000000000000000000000000000000000000000000000000000000000000000000000000000000000000000000000000000000000000000000000000000000000000000000000000000000000000000000000000000000000000000000000000000000000000000000000000000000000000000000000000000000000000000000000000000000000000000000000000000000000000000000000000"

subsection \<open>A file system without artifacts\<close>

definition no_files :: "string \<Rightarrow> error + pyval" where
  "no_files file_path = Inl OSError"

subsection \<open>Observed responses and environments of the scroll loop\<close>

definition example_response :: response where
  "example_response =
     \<lparr>resp_url = ''https://shopee.co.id/api/v4/recommend/recommend?bundle=daily_discover_main&limit=20'',
      request_headers = [(''user-agent'', ''Mozilla/5.0'')],
      resp_json = Some (PDict [(''data'', PDict [(''sections'', PList [])])])\<rparr>"

definition example_response_later :: response where
  "example_response_later =
     \<lparr>resp_url = ''https://shopee.co.id/api/v4/recommend/recommend?bundle=shop_page&limit=6'',
      request_headers = [(''user-agent'', ''Mozilla/5.0''), (''x-api'', ''2'')],
      resp_json = None\<rparr>"

definition example_response_bundle :: response where
  "example_response_bundle =
     \<lparr>resp_url = ''https://shopee.co.id/api/v4/recommend/recommend?bundle=top_products_homepage&limit=20'',
      request_headers = [(''user-agent'', ''Mozilla/5.0''), (''x-api'', ''3'')],
      resp_json = None\<rparr>"

definition example_captured :: harvester where
  "example_captured =
     handle_response (Some [(''SPC_F'', ''abc'')]) example_response (initial_harvester None)"

definition example_env :: "nat \<Rightarrow> tick" where
  "example_env i =
     \<lparr>evaluate_raises = False,
      arrivals = (if i = 2 then [(Some [(''SPC_F'', ''abc'')], example_response)] else [])\<rparr>"

definition quiet_env :: "nat \<Rightarrow> tick" where
  "quiet_env i = \<lparr>evaluate_raises = False, arrivals = []\<rparr>"

subsection \<open>Items with the identifying keys only\<close>

definition bare_top_item :: "(string \<times> pyval) list" where
  "bare_top_item = [(''key'', PStr ''k 1'')]"

definition bare_query :: "(string \<times> pyval) list" where
  "bare_query = [(''item_ids'', PList [PInt 9])]"

definition bare_category :: "(string \<times> pyval) list" where
  "bare_category = [(''level'', PInt 1), (''catid'', PInt 123)]"

definition bare_item :: "(string \<times> pyval) list" where
  "bare_item = [(''itemid'', PInt 5), (''shopid'', PInt 77)]"

definition bare_top_record :: pyval where
  "bare_top_record = PDict
     [(''name'', PNone), (''sold_count'', PNone),
      (''label'', PStr ''Top Product''), (''product_id'', PStr ''k 1''),
      (''score'', PNone), (''images'', PList []),
      (''primary_image'', PNone), (''type'', PStr ''Top Product''),
      (''url'', PStr ''https://shopee.co.id/top_products?catId=k%201'')]"

definition bare_suggestion_record :: pyval where
  "bare_suggestion_record = PDict
     [(''name'', PStr []), (''sold_count'', PNone),
      (''label'', PStr ''Suggestion''), (''product_id'', PInt 9),
      (''score'', PNone), (''images'', PList []),
      (''primary_image'', PNone), (''type'', PStr ''Suggestion''),
      (''url'', PStr ''https://shopee.co.id/search?keyword='')]"

definition bare_category_record :: pyval where
  "bare_category_record = PDict
     [(''name'', PNone), (''id'', PInt 123), (''image'', PNone),
      (''url'', PStr ''https://shopee.co.id/-cat.123'')]"

definition bare_flash_record :: pyval where
  "bare_flash_record = PDict
     [(''name'', PNone), (''price'', PFloat 0), (''old_price'', PFloat 0),
      (''discount'', PStr []), (''sold_count'', PNone),
      (''label'', PStr ''Flash Sale''), (''product_id'', PStr ''77.5''),
      (''score'', PNone), (''images'', PList []),
      (''primary_image'', PNone), (''type'', PStr ''Flash Sale''),
      (''url'', PStr ''https://shopee.co.id/product-i.77.5'')]"

definition bare_discover_record :: pyval where
  "bare_discover_record = PDict
     [(''name'', PNone), (''price'', PFloat 0), (''old_price'', PFloat 0),
      (''discount'', PStr []), (''sold_count'', PInt 0),
      (''label'', PStr ''Daily Discover''), (''product_id'', PStr ''77.5''),
      (''score'', PNone), (''images'', PList []),
      (''primary_image'', PNone), (''type'', PStr ''Daily Discover''),
      (''url'', PStr ''https://shopee.co.id/product-i.77.5'')]"

subsection \<open>A token record and replies to its request\<close>

definition example_prep :: pyval where
  "example_prep = PDict
     [(''url'', PStr ''https://shopee.co.id/api/v4/recommend/recommend?bundle=top_products_homepage&limit=20''),
      (''headers'', PDict [(''user-agent'', PStr ''Mozilla/5.0''),
                           (''x-requested-with'', PStr ''XMLHttpRequest''),
                           (''accept'', PStr ''application/json'')]),
      (''cookies'', PDict [(''SPC_F'', PStr ''abc'')])]"

definition reply_with :: "http_response \<Rightarrow> pyval \<Rightarrow> pyval \<Rightarrow> pyval \<Rightarrow> error + http_response" where
  "reply_with response url headers cookies = Inr response"

definition example_ok_response :: http_response where
  "example_ok_response =
     \<lparr>status_code = 200, body_text = ''{...}'', body_json = Some example_top_payload\<rparr>"

definition example_denied_response :: http_response where
  "example_denied_response =
     \<lparr>status_code = 403, body_text = ''<html>Forbidden</html>'', body_json = None\<rparr>"

definition example_error_body :: pyval where
  "example_error_body = PDict [(''error'', PInt 90309999), (''data'', PNone)]"

definition example_error_response :: http_response where
  "example_error_response =
     \<lparr>status_code = 200, body_text = ''{...}'', body_json = Some example_error_body\<rparr>"

definition example_artifact :: "pyval option" where
  "example_artifact = Some (payload ''sections'' [])"

definition example_shown :: pyval where
  "example_shown = PStr ''https://shopee.co.id/api/v4/recommend/recommend?bundle=top_p''"

section \<open>Properties\<close>

subsection \<open>Auxiliary facts\<close>

lemma andThen_simps [simp]:
  "andThen (Inl e) f = Inl e" "andThen (Inr x) f = f x"
  by (simp_all add: andThen_def)

lemma get_dict_cases:
  obtains (dict) kv where "it = PDict kv" | (other) "\<And>k d. get it k d = Inl AttributeError"
  by (cases it) auto

lemma float_round_limit_eq: "float_round_limit = 2 ^ 1024 - 2 ^ 970"
  by (simp add: float_round_limit_def)

lemma float_overflow_zero [simp]: "\<not> float_overflow 0"
  by (simp add: float_overflow_def float_round_limit_def)

lemma round_binary64_zero [simp]: "round_binary64 0 = 0"
  by (simp add: round_binary64_def)

lemma truediv_int_price:
  "truediv (py_or (PInt n) (PInt 0)) 100000 =
     (if float_overflow (of_int n / 100000) then Inl OverflowError
      else Inr (PFloat (round_binary64 (of_int n / 100000))))"
  by (simp add: py_or_def)

lemma andThen_eq_Inr: "andThen m f = Inr y \<longleftrightarrow> (\<exists>x. m = Inr x \<and> f x = Inr y)"
  by (cases m) auto

lemma andThen_InrE:
  assumes "andThen m f = Inr y"
  obtains x where "m = Inr x" and "f x = Inr y"
  using assms by (auto simp: andThen_eq_Inr)

lemma andThen_assoc: "andThen (andThen m f) g = andThen m (\<lambda>x. andThen (f x) g)"
  by (cases m) simp_all

lemma dget_absent: "map_of kv k = None \<Longrightarrow> dget kv k d = d"
  by (simp add: dget_def)

lemma for_each_member:
  "for_each body xs = Inr rs \<Longrightarrow> r \<in> set rs
     \<Longrightarrow> \<exists>x\<in>set xs. \<exists>rs'. body x = Inr rs' \<and> r \<in> set rs'"
proof (induction xs arbitrary: rs)
  case Nil
  then show ?case by simp
next
  case (Cons x xs)
  from Cons.prems(1) obtain rs1 rs2 where
    parts: "body x = Inr rs1" "for_each body xs = Inr rs2" "rs = rs1 @ rs2"
    by (auto simp: andThen_eq_Inr)
  with Cons.prems(2) have "r \<in> set rs1 \<or> r \<in> set rs2" by simp
  then show ?case
  proof
    assume "r \<in> set rs1"
    with parts(1) show ?thesis by auto
  next
    assume "r \<in> set rs2"
    from Cons.IH [OF parts(2) this] show ?thesis by auto
  qed
qed

lemma for_each_all:
  assumes "for_each body xs = Inr rs"
    and "\<And>x rs' r. body x = Inr rs' \<Longrightarrow> r \<in> set rs' \<Longrightarrow> P r"
  shows "\<forall>r\<in>set rs. P r"
  using for_each_member [OF assms(1)] assms(2) by blast

lemma for_each_ok:
  "\<forall>x\<in>set xs. \<not> isl (body x)
    \<Longrightarrow> for_each body xs = Inr (concat (map (\<lambda>x. projr (body x)) xs))"
proof (induction xs)
  case Nil
  show ?case by simp
next
  case (Cons x xs)
  from Cons.prems obtain rs where "body x = Inr rs" by (cases "body x") auto
  with Cons show ?case by simp
qed

lemma for_each_raises:
  "\<exists>x\<in>set xs. isl (body x) \<Longrightarrow> isl (for_each body xs)"
proof (induction xs)
  case Nil
  then show ?case by simp
next
  case (Cons x xs)
  show ?case
  proof (cases "body x")
    case (Inl e)
    then show ?thesis by simp
  next
    case (Inr rs)
    with Cons.prems have "\<exists>x\<in>set xs. isl (body x)" by auto
    from Cons.IH [OF this] obtain e where "for_each body xs = Inl e"
      by (cases "for_each body xs") auto
    with Inr show ?thesis by simp
  qed
qed

lemma extractors_container:
  "extract_shopee_products fmt data
     = andThen (container data ''sections'') (for_each (top_product_section fmt))"
  "extract_suggestions fmt data
     = andThen (container data ''queries'') (for_each (suggestion_item fmt))"
  "extract_categories fmt data
     = andThen (container data ''category_list'') (for_each (category_item fmt))"
  "extract_flash_sales fmt data
     = andThen (container data ''items'') (for_each (flash_sale_item fmt))"
  "extract_daily_discover fmt data
     = andThen (container data ''feeds'') (for_each (daily_discover_feed fmt))"
  by (simp_all add: container_def andThen_assoc extract_shopee_products_def
      extract_suggestions_def extract_categories_def extract_flash_sales_def
      extract_daily_discover_def)

lemma container_empty_dict: "container (PDict []) key = Inr []"
  by (simp add: container_def dget_def)

lemma container_payload: "container (payload key xs) key = Inr xs"
  by (simp add: container_def payload_def dget_def)

subsection \<open>The metadata parser on the documented info string\<close>

text \<open>
  C2. On the info string \<^verbatim>\<open>SCORE:4.8,other:{nested}\<close> the parser returns a map with the
  single key \<^verbatim>\<open>score\<close>: the part with the brace adds no entry, but the value of
  \<^verbatim>\<open>score\<close> is the string \<^verbatim>\<open>'4.8'\<close>, not the number 4.8. The number stored from the
  regular-expression match is replaced when the loop over the parts reaches
  \<^verbatim>\<open>SCORE:4.8\<close>, which has a colon and no brace.
\<close>

theorem parse_info_string_score_is_text:
  "parse_info_string (PStr ''SCORE:4.8,other:{nested}'') = Inr [(''score'', PStr ''4.8'')]"
  by code_simp

subsection \<open>The two copies of the flash-sale and daily-discover extractors\<close>

lemma flash_sale_item_2_eq: "flash_sale_item_2 fmt it = flash_sale_item fmt it"
proof (cases it rule: get_dict_cases)
  case (dict kv)
  then show ?thesis
    by (cases "truediv (py_or (dget kv ''price'' PNone) (PInt 0)) 100000")
       (simp_all add: flash_sale_item_2_def flash_sale_item_def Let_def)
next
  case other
  then show ?thesis by (simp add: flash_sale_item_2_def flash_sale_item_def)
qed

lemma daily_discover_record_2_eq:
  "daily_discover_record_2 fmt it = daily_discover_record fmt it"
proof (cases it rule: get_dict_cases)
  case (dict kv)
  note it = this
  show ?thesis
  proof (cases "dget kv ''item_card_display_price'' (PDict [])" rule: get_dict_cases)
    case (dict dp)
    with it show ?thesis
      by (cases "truediv (py_or (dget dp ''price'' PNone) (PInt 0)) 100000")
         (simp_all add: daily_discover_record_2_def daily_discover_record_def Let_def)
  next
    case other
    with it show ?thesis
      by (simp add: daily_discover_record_2_def daily_discover_record_def)
  qed
next
  case other
  then show ?thesis by (simp add: daily_discover_record_2_def daily_discover_record_def)
qed

text \<open>
  C10. On every payload the flash-sale extractor of \<^verbatim>\<open>main_2.py\<close> returns what the one
  of \<^verbatim>\<open>main.py\<close> returns, the same records in the same order or the same exception,
  and so do the two daily-discover extractors.
\<close>

theorem main_2_extractors_equal:
  "extract_flash_sales_2 fmt data = extract_flash_sales fmt data
   \<and> extract_daily_discover_2 fmt data = extract_daily_discover fmt data"
proof -
  have "flash_sale_item_2 fmt = flash_sale_item fmt"
    by (rule ext) (rule flash_sale_item_2_eq)
  moreover have "daily_discover_feed_2 fmt = daily_discover_feed fmt"
    unfolding daily_discover_feed_2_def daily_discover_feed_def daily_discover_record_2_eq
    by (rule refl)
  ultimately show ?thesis
    by (simp add: extract_flash_sales_2_def extract_flash_sales_def
        extract_daily_discover_2_def extract_daily_discover_def)
qed

subsection \<open>Rounding to binary64\<close>

text \<open>
  \<open>round_half_even\<close> gives an integer nearest to its argument, \<open>floor_log2\<close> the
  binary exponent of a positive number, and \<open>round_binary64 x\<close> is therefore a multiple
  of the unit in the last place of \<open>x\<close> that is nearest to \<open>x\<close>.
\<close>

lemma round_half_even_cases:
  "round_half_even y = \<lfloor>y\<rfloor> \<and> y - of_int \<lfloor>y\<rfloor> \<le> 1 / 2
   \<or> round_half_even y = \<lfloor>y\<rfloor> + 1 \<and> 1 / 2 \<le> y - of_int \<lfloor>y\<rfloor>"
  by (simp add: round_half_even_def Let_def)

lemma round_half_even_nearest:
  "\<bar>of_int (round_half_even y) - y\<bar> \<le> \<bar>of_int k - y\<bar>"
proof -
  define f where "f = \<lfloor>y\<rfloor>"
  have f: "of_int f \<le> y" "y < of_int f + 1"
    unfolding f_def by linarith+
  have "k \<le> f \<or> f + 1 \<le> k" by linarith
  then have kk: "(of_int k :: rat) \<le> of_int f \<or> (of_int f + 1 :: rat) \<le> of_int k"
  proof
    assume "k \<le> f"
    then have "(of_int k :: rat) \<le> of_int f" by simp
    then show ?thesis ..
  next
    assume "f + 1 \<le> k"
    then have "(of_int (f + 1) :: rat) \<le> of_int k" by (simp only: of_int_le_iff)
    then have "(of_int f + 1 :: rat) \<le> of_int k" by simp
    then show ?thesis ..
  qed
  from round_half_even_cases [of y]
  have m: "of_int (round_half_even y) = (of_int f :: rat) \<and> y - of_int f \<le> 1 / 2
      \<or> of_int (round_half_even y) = (of_int f + 1 :: rat) \<and> 1 / 2 \<le> y - of_int f"
    unfolding f_def by auto
  from m kk f show ?thesis by (elim disjE conjE) linarith+
qed


lemma pow2_pos: "0 < pow2 k"
  by (simp add: pow2_def)

lemma round_binary64_nearest:
  assumes "x \<noteq> 0"
  shows "\<bar>round_binary64 x - x\<bar>
           \<le> \<bar>of_int k * pow2 (max (floor_log2 \<bar>x\<bar> - 52) (- 1074)) - x\<bar>"
proof -
  define p where "p = pow2 (max (floor_log2 \<bar>x\<bar> - 52) (- 1074))"
  define y where "y = \<bar>x\<bar> / p"
  define m where "m = round_half_even y"
  have p: "0 < p" unfolding p_def by (rule pow2_pos)
  have yp: "y * p = \<bar>x\<bar>" using p by (simp add: y_def)
  have key: "\<bar>of_int m * p - y * p\<bar> \<le> \<bar>of_int j * p - y * p\<bar>" for j
  proof -
    have "\<bar>of_int m * p - y * p\<bar> = \<bar>of_int m - y\<bar> * p"
      using p by (simp add: left_diff_distrib [symmetric] abs_mult)
    also have "\<dots> \<le> \<bar>of_int j - y\<bar> * p"
      using round_half_even_nearest [of y j] p by (simp add: m_def mult_right_mono)
    also have "\<dots> = \<bar>of_int j * p - y * p\<bar>"
      using p by (simp add: left_diff_distrib [symmetric] abs_mult)
    finally show ?thesis .
  qed
  have r: "round_binary64 x = sgn x * of_int m * p"
    using assms by (simp add: round_binary64_def Let_def p_def y_def m_def)
  show ?thesis
  proof (cases "0 < x")
    case True
    with r yp key [of k] show ?thesis by (simp add: p_def)
  next
    case False
    with assms have neg: "x < 0" by simp
    then have "round_binary64 x = - (of_int m * p)" "x = - (y * p)"
      using r yp by simp_all
    then have "\<bar>round_binary64 x - x\<bar> = \<bar>of_int m * p - y * p\<bar>"
      by (simp add: abs_minus_commute)
    also have "\<dots> \<le> \<bar>of_int (- k) * p - y * p\<bar>" by (rule key)
    also have "\<dots> = \<bar>of_int k * p - x\<bar>"
      using \<open>x = - (y * p)\<close> by (simp add: abs_minus_commute [of "of_int k * p"] algebra_simps)
    finally show ?thesis by (simp add: p_def)
  qed
qed


lemma pow2_diff: "pow2 (int i - int j) = 2 ^ i / 2 ^ j"
proof (cases "j \<le> i")
  case True
  then have "nat (int i - int j) = i - j" by simp
  with True show ?thesis by (simp add: pow2_def power_diff)
next
  case False
  then have "nat (- (int i - int j)) = j - i" "i \<le> j" "\<not> 0 \<le> int i - int j" by simp_all
  then show ?thesis by (simp add: pow2_def power_diff)
qed

lemma bit_length_bounds:
  "0 < n \<Longrightarrow> 2 ^ (bit_length n - 1) \<le> n \<and> n < 2 ^ bit_length n"
proof (induction n rule: bit_length.induct)
  case (1 n)
  show ?case
  proof (cases "n = 1")
    case True
    then show ?thesis by (simp add: bit_length.simps)
  next
    case False
    with "1.prems" have h: "0 < n div 2" "\<not> n \<le> 0" by simp_all
    with "1.IH" have ih: "2 ^ (bit_length (n div 2) - 1) \<le> n div 2"
      "n div 2 < 2 ^ bit_length (n div 2)" by simp_all
    from h have pos: "0 < bit_length (n div 2)"
      by (subst bit_length.simps) simp
    have b: "bit_length n = Suc (bit_length (n div 2))"
      using h by (subst bit_length.simps) simp
    from pos obtain j where j: "bit_length (n div 2) = Suc j" by (cases "bit_length (n div 2)") auto
    from ih have "2 * 2 ^ (bit_length (n div 2) - 1) \<le> n" "n < 2 * 2 ^ bit_length (n div 2)"
      by linarith+
    with b j show ?thesis by simp
  qed
qed


lemma floor_log2_bounds:
  assumes "0 < x"
  shows "pow2 (floor_log2 x) \<le> x \<and> x < pow2 (floor_log2 x + 1)"
proof -
  define a where "a = fst (quotient_of x)"
  define b where "b = snd (quotient_of x)"
  define la where "la = bit_length a"
  define lb where "lb = bit_length b"
  have q: "quotient_of x = (a, b)" by (simp add: a_def b_def)
  then have b: "0 < b" and x: "x = of_int a / of_int b"
    by (rule quotient_of_denom_pos, rule quotient_of_div)
  with assms have a: "0 < a" by (simp add: zero_less_divide_iff)
  from bit_length_bounds [OF a] have ab: "2 ^ (la - 1) \<le> a" "a < 2 ^ la" by (simp_all add: la_def)
  from bit_length_bounds [OF b] have bb: "2 ^ (lb - 1) \<le> b" "b < 2 ^ lb" by (simp_all add: lb_def)
  have la: "0 < la" using a unfolding la_def by (subst bit_length.simps) simp
  have lb: "0 < lb" using b unfolding lb_def by (subst bit_length.simps) simp
  have ra: "(2 :: rat) ^ (la - 1) \<le> of_int a" "(of_int a :: rat) < 2 ^ la"
    using ab by (metis of_int_le_iff of_int_numeral of_int_power, metis of_int_less_iff of_int_numeral of_int_power)
  have rb: "(2 :: rat) ^ (lb - 1) \<le> of_int b" "(of_int b :: rat) < 2 ^ lb"
    using bb by (metis of_int_le_iff of_int_numeral of_int_power, metis of_int_less_iff of_int_numeral of_int_power)
  have bpos: "(0 :: rat) < of_int b" using b by simp
  have upper: "x < pow2 (int la - int lb + 1)"
  proof -
    have "int la - int lb + 1 = int la - int (lb - 1)" using lb by simp
    then have "pow2 (int la - int lb + 1) = 2 ^ la / 2 ^ (lb - 1)" by (simp only: pow2_diff)
    moreover have "of_int a / of_int b < (2 :: rat) ^ la / 2 ^ (lb - 1)"
      using ra rb bpos a by (intro frac_less) simp_all
    ultimately show ?thesis using x by simp
  qed
  have lower: "pow2 (int la - int lb - 1) \<le> x"
  proof -
    have "int la - int lb - 1 = int (la - 1) - int lb" using la by simp
    then have "pow2 (int la - int lb - 1) = 2 ^ (la - 1) / 2 ^ lb" by (simp only: pow2_diff)
    moreover have "(2 :: rat) ^ (la - 1) / 2 ^ lb \<le> of_int a / of_int b"
      using ra rb bpos a by (intro frac_le) simp_all
    ultimately show ?thesis using x by simp
  qed
  have fl: "floor_log2 x = (if pow2 (int la - int lb) \<le> x then int la - int lb
                            else int la - int lb - 1)"
    by (simp add: floor_log2_def Let_def la_def lb_def a_def b_def)
  show ?thesis
  proof (cases "pow2 (int la - int lb) \<le> x")
    case True
    with fl upper show ?thesis by simp
  next
    case False
    with fl lower show ?thesis by simp
  qed
qed

subsection \<open>Price scaling\<close>

lemma flash_sale_item_prices:
  assumes "flash_sale_item fmt (PDict kv) = Inr rs"
  shows "\<exists>r. rs = [r]
    \<and> (\<forall>n. map_of kv ''price'' = Some (PInt n)
           \<longrightarrow> \<not> float_overflow (of_int n / 100000)
             \<and> field r ''price'' = Some (PFloat (round_binary64 (of_int n / 100000))))
    \<and> (\<forall>n. map_of kv ''price_before_discount'' = Some (PInt n)
           \<longrightarrow> \<not> float_overflow (of_int n / 100000)
             \<and> field r ''old_price'' = Some (PFloat (round_binary64 (of_int n / 100000))))"
  using assms
  by (auto simp: flash_sale_item_def Let_def andThen_eq_Inr field_def dget_def truediv_int_price
      split: if_splits)

lemma flash_sale_item_overflow:
  assumes "map_of kv ''price'' = Some (PInt n)" and "float_overflow (of_int n / 100000)"
  shows "flash_sale_item fmt (PDict kv) = Inl OverflowError"
  using assms by (simp add: flash_sale_item_def dget_def truediv_int_price)

lemma daily_discover_record_prices:
  assumes "daily_discover_record fmt (PDict kv) = Inr rs"
    and "map_of kv ''item_card_display_price'' = Some (PDict dp)"
  shows "\<exists>r. rs = [r]
    \<and> (\<forall>n. map_of dp ''price'' = Some (PInt n)
           \<longrightarrow> \<not> float_overflow (of_int n / 100000)
             \<and> field r ''price'' = Some (PFloat (round_binary64 (of_int n / 100000))))
    \<and> (\<forall>n. map_of dp ''strikethrough_price'' = Some (PInt n)
           \<longrightarrow> \<not> float_overflow (of_int n / 100000)
             \<and> field r ''old_price'' = Some (PFloat (round_binary64 (of_int n / 100000))))"
  using assms
  by (auto simp: daily_discover_record_def Let_def andThen_eq_Inr field_def dget_def
      truediv_int_price split: if_splits)

lemma daily_discover_record_overflow:
  assumes "map_of kv ''item_card_display_price'' = Some (PDict dp)"
    and "map_of dp ''price'' = Some (PInt n)" and "float_overflow (of_int n / 100000)"
  shows "daily_discover_record fmt (PDict kv) = Inl OverflowError"
  using assms by (simp add: daily_discover_record_def dget_def truediv_int_price)

lemma example_flash_run:
  "flash_sale_item str_atom (PDict example_flash_item) = Inr [example_flash_record]"
  by code_simp

lemma example_discover_run:
  "daily_discover_record str_atom (PDict example_discover_item) = Inr [example_discover_record]"
  by code_simp

lemma example_roundings:
  "round_binary64 (of_int 12345600 / 100000) = 8687443681197687 / 70368744177664"
  "round_binary64 (of_int 20000000 / 100000) = 200"
  "round_binary64 (of_int 1 / 100000) = 5902958103587057 / 590295810358705651712"
  by code_simp+

lemma example_literal:
  "py_float ''123.456'' = Inr (PFloat (8687443681197687 / 70368744177664))"
  by code_simp

lemma example_huge_overflow: "float_overflow (of_int huge_price / 100000)"
  by (simp add: float_overflow_def float_round_limit_def huge_price_def)

text \<open>
  C6, as the code has it. For an integer \<^verbatim>\<open>price\<close> of a flash-sale item, the extractor
  raises OverflowError when the integer divided by 100000 is out of the range of the
  floats; otherwise the \<^verbatim>\<open>price\<close> of the record built from the item is that quotient
  rounded to the nearest float, which is what Python's division of two integers
  returns. The same holds for \<^verbatim>\<open>price_before_discount\<close> and \<^verbatim>\<open>old_price\<close>, and in a
  daily-discover item for the \<^verbatim>\<open>price\<close> and \<^verbatim>\<open>strikethrough_price\<close> of its
  \<^verbatim>\<open>item_card_display_price\<close>. For 12345600 the quotient 123.456 is rounded to the
  float that \<^verbatim>\<open>123.456\<close> denotes, the one \<^verbatim>\<open>float('123.456')\<close> returns.
\<close>

theorem price_scaling:
  "(flash_sale_item fmt (PDict kv) = Inr rs \<longrightarrow>
      (\<exists>r. rs = [r]
         \<and> (\<forall>n. map_of kv ''price'' = Some (PInt n)
                \<longrightarrow> \<not> float_overflow (of_int n / 100000)
                  \<and> field r ''price'' = Some (PFloat (round_binary64 (of_int n / 100000))))
         \<and> (\<forall>n. map_of kv ''price_before_discount'' = Some (PInt n)
                \<longrightarrow> \<not> float_overflow (of_int n / 100000)
                  \<and> field r ''old_price''
                      = Some (PFloat (round_binary64 (of_int n / 100000))))))
   \<and> (map_of kv ''price'' = Some (PInt m) \<and> float_overflow (of_int m / 100000) \<longrightarrow>
        flash_sale_item fmt (PDict kv) = Inl OverflowError)
   \<and> (daily_discover_record fmt (PDict kv') = Inr rs'
        \<and> map_of kv' ''item_card_display_price'' = Some (PDict dp) \<longrightarrow>
      (\<exists>r. rs' = [r]
         \<and> (\<forall>n. map_of dp ''price'' = Some (PInt n)
                \<longrightarrow> \<not> float_overflow (of_int n / 100000)
                  \<and> field r ''price'' = Some (PFloat (round_binary64 (of_int n / 100000))))
         \<and> (\<forall>n. map_of dp ''strikethrough_price'' = Some (PInt n)
                \<longrightarrow> \<not> float_overflow (of_int n / 100000)
                  \<and> field r ''old_price''
                      = Some (PFloat (round_binary64 (of_int n / 100000))))))
   \<and> (map_of kv' ''item_card_display_price'' = Some (PDict dp)
        \<and> map_of dp ''price'' = Some (PInt m) \<and> float_overflow (of_int m / 100000) \<longrightarrow>
        daily_discover_record fmt (PDict kv') = Inl OverflowError)
   \<and> round_binary64 (of_int 12345600 / 100000) = 8687443681197687 / 70368744177664
   \<and> py_float ''123.456'' = Inr (PFloat (round_binary64 (of_int 12345600 / 100000)))"
proof -
  have "py_float ''123.456'' = Inr (PFloat (round_binary64 (of_int 12345600 / 100000)))"
    using example_literal example_roundings(1) by simp
  with flash_sale_item_prices [of fmt kv rs] daily_discover_record_prices [of fmt kv' rs' dp]
    flash_sale_item_overflow [of kv m fmt] daily_discover_record_overflow [of kv' dp m fmt]
    example_roundings(1)
  show ?thesis by blast
qed

theorem price_scaling_witness:
  "flash_sale_item str_atom (PDict example_flash_item) = Inr [example_flash_record]
   \<and> map_of example_flash_item ''price'' = Some (PInt 12345600)
   \<and> field example_flash_record ''price''
       = Some (PFloat (8687443681197687 / 70368744177664))
   \<and> field example_flash_record ''old_price'' = Some (PFloat 200)
   \<and> daily_discover_record str_atom (PDict example_discover_item) = Inr [example_discover_record]
   \<and> field example_discover_record ''price''
       = Some (PFloat (8687443681197687 / 70368744177664))
   \<and> field example_discover_record ''old_price'' = Some (PFloat 200)
   \<and> flash_sale_item str_atom (PDict [(''price'', PInt huge_price)]) = Inl OverflowError
   \<and> daily_discover_record str_atom
         (PDict [(''item_card_display_price'', PDict [(''price'', PInt huge_price)])])
       = Inl OverflowError"
proof -
  have dp: "map_of example_discover_item ''item_card_display_price''
    = Some (PDict [(''price'', PInt 12345600), (''strikethrough_price'', PInt 20000000)])"
    by (simp add: example_discover_item_def)
  have p: "map_of example_flash_item ''price'' = Some (PInt 12345600)"
    "map_of example_flash_item ''price_before_discount'' = Some (PInt 20000000)"
    by (simp_all add: example_flash_item_def)
  have 1: "field example_flash_record ''price''
       = Some (PFloat (8687443681197687 / 70368744177664))
   \<and> field example_flash_record ''old_price'' = Some (PFloat 200)
   \<and> field example_discover_record ''price''
       = Some (PFloat (8687443681197687 / 70368744177664))
   \<and> field example_discover_record ''old_price'' = Some (PFloat 200)"
    using price_scaling [where fmt = str_atom and kv = example_flash_item
        and rs = "[example_flash_record]" and kv' = example_discover_item
        and rs' = "[example_discover_record]"
        and dp = "[(''price'', PInt 12345600), (''strikethrough_price'', PInt 20000000)]"]
      example_flash_run example_discover_run dp p example_roundings
    by simp
  have 2: "flash_sale_item str_atom (PDict [(''price'', PInt huge_price)]) = Inl OverflowError
   \<and> daily_discover_record str_atom
         (PDict [(''item_card_display_price'', PDict [(''price'', PInt huge_price)])])
       = Inl OverflowError"
    using price_scaling [where fmt = str_atom and kv = "[(''price'', PInt huge_price)]"
        and m = huge_price
        and kv' = "[(''item_card_display_price'', PDict [(''price'', PInt huge_price)])]"
        and dp = "[(''price'', PInt huge_price)]"]
      example_huge_overflow
    by simp
  from 1 2 p example_flash_run example_discover_run show ?thesis by blast
qed

text \<open>
  The price of an item with the raw price 1 is the float \<^verbatim>\<open>1e-05\<close>, which is not
  the hundred-thousandth; and an item whose raw price is a one followed by 314 zeros has
  no normalized price, as the division raises OverflowError.
\<close>

theorem price_scaling_counterexample:
  "flash_sale_item str_atom (PDict unit_price_item) = Inr [unit_price_record]
   \<and> map_of unit_price_item ''price'' = Some (PInt 1)
   \<and> field unit_price_record ''price''
       = Some (PFloat (5902958103587057 / 590295810358705651712))
   \<and> (5902958103587057 / 590295810358705651712 :: rat) \<noteq> 1 / 100000
   \<and> extract_flash_sales str_atom (payload ''items'' [PDict [(''price'', PInt huge_price)]])
       = Inl OverflowError"
proof -
  have "flash_sale_item str_atom (PDict unit_price_item) = Inr [unit_price_record]
   \<and> map_of unit_price_item ''price'' = Some (PInt 1)
   \<and> field unit_price_record ''price''
       = Some (PFloat (5902958103587057 / 590295810358705651712))"
    by code_simp
  moreover have "(5902958103587057 / 590295810358705651712 :: rat) \<noteq> 1 / 100000"
    by simp
  moreover have "extract_flash_sales str_atom
        (payload ''items'' [PDict [(''price'', PInt huge_price)]]) = Inl OverflowError"
    using example_huge_overflow
    by (simp add: extract_flash_sales_def payload_def dget_def flash_sale_item_def
        truediv_int_price)
  ultimately show ?thesis by blast
qed

subsection \<open>The response observer\<close>

lemma contains_nonempty: "contains p s \<Longrightarrow> p \<noteq> [] \<Longrightarrow> s \<noteq> []"
  by (cases s) auto

lemma handle_response_keeps_url_set:
  assumes "request_captured st \<longrightarrow> \<not> url_unset (harvested_data st)"
  shows "request_captured (handle_response jar response st)
         \<longrightarrow> \<not> url_unset (harvested_data (handle_response jar response st))"
  using assms contains_nonempty [of "''api/v4/recommend/recommend''" "resp_url response"]
  by (auto simp: handle_response_def Let_def url_unset_def split: option.splits)

lemma captured_url_set:
  "reachable st \<Longrightarrow> request_captured st \<longrightarrow> \<not> url_unset (harvested_data st)"
proof (induction rule: reachable.induct)
  case (start artifact)
  show ?case by (simp add: initial_harvester_def)
next
  case (observe st jar response)
  from observe.IH show ?case by (rule handle_response_keeps_url_set)
qed

text \<open>
  C4. For a response whose URL contains the API path: if the URL also contains the bundle
  discriminator, or no URL is stored yet, the observer stores the URL and request headers
  of this response (and, when the cookie jar can be read, the cookies, and sets the
  capture signal); otherwise it changes nothing. In every state the observer can reach in
  which the capture signal is set, a matching response without the discriminator therefore
  leaves the whole state, and the token record in it, unchanged.
\<close>

theorem capture_condition:
  assumes "contains ''api/v4/recommend/recommend'' (resp_url response)"
  shows "(contains ''bundle=top_products_homepage'' (resp_url response)
            \<or> url_unset (harvested_data st) \<longrightarrow>
          data_url (harvested_data (handle_response jar response st)) = Some (resp_url response)
          \<and> data_headers (harvested_data (handle_response jar response st))
              = request_headers response
          \<and> (\<forall>cookies. jar = Some cookies \<longrightarrow>
                data_cookies (harvested_data (handle_response jar response st))
                  = cookie_dict cookies
                \<and> request_captured (handle_response jar response st)))
     \<and> (\<not> (contains ''bundle=top_products_homepage'' (resp_url response)
            \<or> url_unset (harvested_data st)) \<longrightarrow>
          handle_response jar response st = st)
     \<and> (reachable st \<and> request_captured st
          \<and> \<not> contains ''bundle=top_products_homepage'' (resp_url response) \<longrightarrow>
          handle_response jar response st = st)"
proof (intro conjI impI)
  assume "reachable st \<and> request_captured st
          \<and> \<not> contains ''bundle=top_products_homepage'' (resp_url response)"
  with captured_url_set [of st] show "handle_response jar response st = st"
    by (simp add: handle_response_def)
qed (use assms in \<open>auto simp: handle_response_def Let_def split: option.splits\<close>)

theorem capture_condition_witness:
  "contains ''api/v4/recommend/recommend'' (resp_url example_response_later)
   \<and> reachable example_captured \<and> request_captured example_captured
   \<and> handle_response (Some []) example_response_later example_captured = example_captured
   \<and> data_url (harvested_data (handle_response (Some []) example_response_bundle example_captured))
       = Some (resp_url example_response_bundle)
   \<and> data_url (harvested_data (handle_response None example_response (initial_harvester None)))
       = Some (resp_url example_response)"
proof -
  have m: "contains ''api/v4/recommend/recommend'' (resp_url example_response_later)"
    "contains ''api/v4/recommend/recommend'' (resp_url example_response_bundle)"
    "contains ''api/v4/recommend/recommend'' (resp_url example_response)"
    by code_simp+
  have r: "reachable example_captured"
    unfolding example_captured_def by (intro reachable.intros)
  have c: "request_captured example_captured" by code_simp
  have b: "\<not> contains ''bundle=top_products_homepage'' (resp_url example_response_later)"
    "contains ''bundle=top_products_homepage'' (resp_url example_response_bundle)"
    "url_unset (harvested_data (initial_harvester None))"
    by code_simp+
  from capture_condition [OF m(1), of example_captured "Some []"]
    capture_condition [OF m(2), of example_captured "Some []"]
    capture_condition [OF m(3), of "initial_harvester None" None]
    m r c b
  show ?thesis by simp
qed

subsection \<open>The scroll loop\<close>

lemma scroll_steps_captured:
  "request_captured st \<Longrightarrow> scroll_steps env steps st = ([], st)"
  by (cases steps) simp_all

lemma scroll_steps_offsets:
  "\<exists>k\<le>length steps. fst (scroll_steps env steps st) = map (\<lambda>i. 600 + i * 200) (take k steps)"
proof (induction steps arbitrary: st)
  case Nil
  show ?case by simp
next
  case (Cons i rest)
  show ?case
  proof (cases "request_captured st")
    case True
    then have "fst (scroll_steps env (i # rest) st) = map (\<lambda>i. 600 + i * 200) (take 0 (i # rest))"
      by simp
    then show ?thesis by blast
  next
    case False
    show ?thesis
    proof (cases "evaluate_raises (env i)")
      case True
      with False
      have "fst (scroll_steps env (i # rest) st) = map (\<lambda>i. 600 + i * 200) (take 1 (i # rest))"
        by simp
      moreover have "1 \<le> length (i # rest)" by simp
      ultimately show ?thesis by blast
    next
      case noraise: False
      from Cons.IH [of "deliver (arrivals (env i)) st"]
      obtain k where k: "k \<le> length rest"
        "fst (scroll_steps env rest (deliver (arrivals (env i)) st))
           = map (\<lambda>i. 600 + i * 200) (take k rest)"
        by blast
      with False noraise
      have "fst (scroll_steps env (i # rest) st)
              = map (\<lambda>i. 600 + i * 200) (take (Suc k) (i # rest))"
        by (simp add: Let_def)
      moreover from k have "Suc k \<le> length (i # rest)" by simp
      ultimately show ?thesis by blast
    qed
  qed
qed

lemma scroll_loop_offsets:
  "\<exists>k\<le>15. fst (scroll_loop env st) = map (\<lambda>i. 600 + i * 200) [0..<k]"
proof -
  from scroll_steps_offsets [of "[0..<15]" env st]
  obtain k where k: "k \<le> 15"
    "fst (scroll_loop env st) = map (\<lambda>i. 600 + i * 200) (take k [0..<15])"
    by (auto simp: scroll_loop_def)
  then have "take k [0..<15] = [0..<k]" by (simp add: take_upt)
  with k show ?thesis by auto
qed

text \<open>
  C9. The loop injects at most 15 scrolls, and the injection number \<open>i\<close> (from 0) has
  offset \<open>600 + i * 200\<close>. Whatever iterations remain, a loop that finds the capture
  signal set injects nothing more; and when the signal becomes set while iteration \<open>j\<close>
  is suspended, the scroll of iteration \<open>j\<close> is the last one.
\<close>

theorem scroll_budget:
  "length (fst (scroll_loop env st)) \<le> 15
   \<and> (\<forall>i<length (fst (scroll_loop env st)). fst (scroll_loop env st) ! i = 600 + i * 200)
   \<and> (request_captured st' \<longrightarrow> scroll_steps env steps st' = ([], st'))
   \<and> (\<not> request_captured st' \<and> \<not> evaluate_raises (env j)
        \<and> request_captured (deliver (arrivals (env j)) st') \<longrightarrow>
      scroll_steps env (j # steps) st' = ([600 + j * 200], deliver (arrivals (env j)) st'))"
proof -
  from scroll_loop_offsets [of env st]
  obtain k where k: "k \<le> 15" "fst (scroll_loop env st) = map (\<lambda>i. 600 + i * 200) [0..<k]"
    by blast
  then have "length (fst (scroll_loop env st)) \<le> 15"
    and "\<forall>i<length (fst (scroll_loop env st)). fst (scroll_loop env st) ! i = 600 + i * 200"
    by simp_all
  then show ?thesis
    by (simp add: scroll_steps_captured Let_def)
qed

theorem scroll_budget_witness:
  "fst (scroll_loop example_env (initial_harvester None)) = [600, 800, 1000]
   \<and> fst (scroll_loop quiet_env (initial_harvester None))
       = [600, 800, 1000, 1200, 1400, 1600, 1800, 2000, 2200, 2400, 2600, 2800, 3000, 3200, 3400]
   \<and> request_captured example_captured
   \<and> scroll_steps quiet_env [3, 4, 5] example_captured = ([], example_captured)
   \<and> scroll_steps example_env [2, 3, 4] (initial_harvester None) = ([1000], example_captured)"
proof -
  have a: "fst (scroll_loop example_env (initial_harvester None)) = [600, 800, 1000]"
    by code_simp
  have b: "fst (scroll_loop quiet_env (initial_harvester None))
       = [600, 800, 1000, 1200, 1400, 1600, 1800, 2000, 2200, 2400, 2600, 2800, 3000, 3200, 3400]"
    by code_simp
  have c: "request_captured example_captured" by code_simp
  have d: "\<not> request_captured (initial_harvester None)" "\<not> evaluate_raises (example_env 2)"
    "deliver (arrivals (example_env 2)) (initial_harvester None) = example_captured"
    by code_simp+
  from scroll_budget [where env = quiet_env and st = "initial_harvester None"
        and st' = example_captured and steps = "[3, 4, 5]"]
    scroll_budget [where env = example_env and st = "initial_harvester None"
        and st' = "initial_harvester None" and j = 2 and steps = "[3, 4]"]
    a b c d
  show ?thesis by simp
qed

subsection \<open>Empty payloads\<close>

lemma for_each_nothing:
  "\<forall>x\<in>set xs. body x = Inr [] \<Longrightarrow> for_each body xs = Inr []"
  by (induction xs) simp_all

lemma sections_without_products:
  assumes "container data ''sections'' = Inr secs"
    and "\<forall>sec\<in>set secs. \<exists>section_data top_products.
           get sec ''data'' (PDict []) = Inr section_data
           \<and> get section_data ''top_product'' PNone = Inr top_products
           \<and> \<not> truthy top_products"
  shows "extract_shopee_products fmt data = Inr []"
proof -
  have "\<forall>sec\<in>set secs. top_product_section fmt sec = Inr []"
    using assms(2) by (auto simp: top_product_section_def)
  then have "for_each (top_product_section fmt) secs = Inr []"
    by (rule for_each_nothing)
  with assms(1) show ?thesis by (simp add: extractors_container)
qed

text \<open>
  C8. Loading an artifact whose file is missing or cannot be read or parsed gives the
  empty dictionary. Each of the five extractors returns the empty list on the empty
  dictionary, and on every payload whose container at the extractor's path has no
  element. The path of the top-product extractor has two levels,
  \<^verbatim>\<open>data.sections[].data.top_product[]\<close>: it also returns the empty list when there
  are sections and the \<^verbatim>\<open>top_product\<close> of each of them is empty or missing.
\<close>

theorem empty_payloads:
  "(read_json file_path = Inl e \<longrightarrow> load_json_data read_json file_path = PDict [])
   \<and> extract_shopee_products fmt (PDict []) = Inr []
   \<and> extract_suggestions fmt (PDict []) = Inr []
   \<and> extract_categories fmt (PDict []) = Inr []
   \<and> extract_flash_sales fmt (PDict []) = Inr []
   \<and> extract_daily_discover fmt (PDict []) = Inr []
   \<and> (container data ''sections'' = Inr [] \<longrightarrow> extract_shopee_products fmt data = Inr [])
   \<and> (container data ''queries'' = Inr [] \<longrightarrow> extract_suggestions fmt data = Inr [])
   \<and> (container data ''category_list'' = Inr [] \<longrightarrow> extract_categories fmt data = Inr [])
   \<and> (container data ''items'' = Inr [] \<longrightarrow> extract_flash_sales fmt data = Inr [])
   \<and> (container data ''feeds'' = Inr [] \<longrightarrow> extract_daily_discover fmt data = Inr [])
   \<and> (container data ''sections'' = Inr secs
        \<and> (\<forall>sec\<in>set secs. \<exists>section_data top_products.
               get sec ''data'' (PDict []) = Inr section_data
               \<and> get section_data ''top_product'' PNone = Inr top_products
               \<and> \<not> truthy top_products) \<longrightarrow>
        extract_shopee_products fmt data = Inr [])"
  using sections_without_products [of data secs fmt]
  by (simp add: extractors_container container_empty_dict load_json_data_def)

theorem empty_payloads_witness:
  "no_files ''response_flash_sale.json'' = Inl OSError
   \<and> load_json_data no_files ''response_flash_sale.json'' = PDict []
   \<and> extract_flash_sales str_atom (load_json_data no_files ''response_flash_sale.json'') = Inr []
   \<and> extract_shopee_products str_atom (payload ''sections'' []) = Inr []
   \<and> extract_suggestions str_atom (payload ''queries'' []) = Inr []
   \<and> extract_categories str_atom (payload ''category_list'' []) = Inr []
   \<and> extract_flash_sales str_atom (payload ''items'' []) = Inr []
   \<and> extract_daily_discover str_atom (payload ''feeds'' []) = Inr []
   \<and> extract_shopee_products str_atom (payload ''sections'' [example_empty_section, PDict []])
       = Inr []"
proof -
  have c: "container (payload key []) key = Inr []" for key
    by (simp add: container_def payload_def dget_def)
  have s: "container (payload ''sections'' [example_empty_section, PDict []]) ''sections''
      = Inr [example_empty_section, PDict []]"
    by (simp add: container_def payload_def dget_def)
  have t: "\<forall>sec\<in>set [example_empty_section, PDict []]. \<exists>section_data top_products.
           get sec ''data'' (PDict []) = Inr section_data
           \<and> get section_data ''top_product'' PNone = Inr top_products
           \<and> \<not> truthy top_products"
    by (simp add: example_empty_section_def dget_def)
  have n: "extract_shopee_products str_atom
        (payload ''sections'' [example_empty_section, PDict []]) = Inr []"
    using empty_payloads [where fmt = str_atom
        and data = "payload ''sections'' [example_empty_section, PDict []]"
        and secs = "[example_empty_section, PDict []]", THEN conjunct2, THEN conjunct2,
        THEN conjunct2, THEN conjunct2, THEN conjunct2, THEN conjunct2, THEN conjunct2,
        THEN conjunct2, THEN conjunct2, THEN conjunct2, THEN conjunct2] s t
    by blast
  have f: "no_files ''response_flash_sale.json'' = Inl OSError"
    by (simp add: no_files_def)
  from empty_payloads [where read_json = no_files and file_path = "''response_flash_sale.json''"
      and e = OSError and fmt = str_atom and data = "payload ''sections'' []"]
    empty_payloads [where fmt = str_atom and data = "payload ''queries'' []"]
    empty_payloads [where fmt = str_atom and data = "payload ''category_list'' []"]
    empty_payloads [where fmt = str_atom and data = "payload ''items'' []"]
    empty_payloads [where fmt = str_atom and data = "payload ''feeds'' []"]
    c f n
  show ?thesis by simp
qed

subsection \<open>The primary image\<close>

lemma invariant_of_list:
  "primary_image_invariant (PDict kv)" 
  if "map_of kv ''images'' = Some (PList us)"
    and "map_of kv ''primary_image'' = Some (case us of [] \<Rightarrow> PNone | u # us' \<Rightarrow> u)"
  using that by (simp add: primary_image_invariant_def field_def split: list.splits)

lemma invariant_of_single:
  "primary_image_invariant (PDict kv)" 
  if "map_of kv ''images'' = Some (if truthy p then PList [p] else PList [])"
    and "map_of kv ''primary_image'' = Some p" and "\<not> truthy p \<longrightarrow> p = PNone"
  using that by (simp add: primary_image_invariant_def field_def split: list.splits)

lemma top_product_item_invariant:
  assumes "top_product_item fmt item = Inr rs" and "r \<in> set rs"
  shows "primary_image_invariant r"
proof -
  from assms(1) obtain kv us where "rs = [PDict kv]"
    "map_of kv ''images'' = Some (PList us)"
    "map_of kv ''primary_image'' = Some (case us of [] \<Rightarrow> PNone | u # us' \<Rightarrow> u)"
    unfolding top_product_item_def Let_def by (elim andThen_InrE) auto
  with assms(2) show ?thesis by (simp add: invariant_of_list)
qed

lemma suggestion_item_invariant:
  assumes "suggestion_item fmt q = Inr rs" and "r \<in> set rs"
  shows "primary_image_invariant r"
proof -
  from assms(1) obtain kv p where "rs = [PDict kv]"
    "map_of kv ''images'' = Some (if truthy p then PList [p] else PList [])"
    "map_of kv ''primary_image'' = Some p" "\<not> truthy p \<longrightarrow> p = PNone"
    unfolding suggestion_item_def Let_def by (elim andThen_InrE) (auto simp: cdn_def)
  with assms(2) show ?thesis by (simp add: invariant_of_single)
qed

lemma flash_sale_item_invariant:
  assumes "flash_sale_item fmt it = Inr rs" and "r \<in> set rs"
  shows "primary_image_invariant r"
proof -
  from assms(1) obtain kv p where "rs = [PDict kv]"
    "map_of kv ''images'' = Some (if truthy p then PList [p] else PList [])"
    "map_of kv ''primary_image'' = Some p" "\<not> truthy p \<longrightarrow> p = PNone"
    unfolding flash_sale_item_def Let_def by (elim andThen_InrE) (auto simp: cdn_def)
  with assms(2) show ?thesis by (simp add: invariant_of_single)
qed

lemma top_product_section_invariant:
  assumes "top_product_section fmt section = Inr rs" and "r \<in> set rs"
  shows "primary_image_invariant r"
proof -
  from assms(1) consider "rs = []"
    | items where "for_each (top_product_item fmt) items = Inr rs"
    by (auto simp: top_product_section_def andThen_eq_Inr split: if_splits)
  then show ?thesis
  proof cases
    case 1
    with assms(2) show ?thesis by simp
  next
    case 2
    from for_each_all [OF this, of primary_image_invariant] top_product_item_invariant assms(2)
    show ?thesis by blast
  qed
qed

lemma extractor_invariants:
  "extract_shopee_products fmt data = Inr rs \<Longrightarrow> \<forall>r\<in>set rs. primary_image_invariant r"
  "extract_suggestions fmt data = Inr rs \<Longrightarrow> \<forall>r\<in>set rs. primary_image_invariant r"
  "extract_flash_sales fmt data = Inr rs \<Longrightarrow> \<forall>r\<in>set rs. primary_image_invariant r"
proof -
  show "\<forall>r\<in>set rs. primary_image_invariant r"
    if "extract_shopee_products fmt data = Inr rs"
  proof -
    from that obtain ss where "for_each (top_product_section fmt) ss = Inr rs"
      by (auto simp: extractors_container andThen_eq_Inr)
    then show ?thesis
      by (rule for_each_all) (rule top_product_section_invariant)
  qed
  show "\<forall>r\<in>set rs. primary_image_invariant r"
    if "extract_suggestions fmt data = Inr rs"
  proof -
    from that obtain qs where "for_each (suggestion_item fmt) qs = Inr rs"
      by (auto simp: extractors_container andThen_eq_Inr)
    then show ?thesis
      by (rule for_each_all) (rule suggestion_item_invariant)
  qed
  show "\<forall>r\<in>set rs. primary_image_invariant r"
    if "extract_flash_sales fmt data = Inr rs"
  proof -
    from that obtain its where "for_each (flash_sale_item fmt) its = Inr rs"
      by (auto simp: extractors_container andThen_eq_Inr)
    then show ?thesis
      by (rule for_each_all) (rule flash_sale_item_invariant)
  qed
qed

lemma category_item_keys:
  assumes "category_item fmt c = Inr rs" and "r \<in> set rs"
  shows "field r ''images'' = None \<and> field r ''primary_image'' = None"
proof (cases "\<exists>level. get c ''level'' PNone = Inr level \<and> eq_one level")
  case True
  then obtain level where "get c ''level'' PNone = Inr level" "eq_one level"
    by blast
  with assms(1) obtain x where "get c ''display_name'' PNone = Inr x"
    and "andThen (get c ''name'' PNone) (\<lambda>name.
       andThen (get c ''catid'' PNone) (\<lambda>catid.
       andThen (get c ''image'' PNone) (\<lambda>image.
       andThen (get c ''display_name'' (PStr [])) (\<lambda>display_name'.
       andThen (replace_spaces display_name') (\<lambda>slug.
       andThen (py_quote (PStr slug)) (\<lambda>encoded.
       Inr [PDict
         [(''name'', py_or x name),
          (''id'', catid),
          (''image'', if truthy image then PStr (cdn @ fmt image) else PNone),
          (''url'', PStr (''https://shopee.co.id/'' @ encoded @ ''-cat.'' @ fmt catid))]]))))))
       = Inr rs"
    by (auto simp: category_item_def andThen_eq_Inr)
  then obtain kv where "rs = [PDict kv]"
    "map_of kv ''images'' = None" "map_of kv ''primary_image'' = None"
    by (elim andThen_InrE) auto
  with assms(2) show ?thesis by (simp add: field_def)
next
  case False
  with assms(1) have "rs = []"
    by (auto simp: category_item_def andThen_eq_Inr split: if_splits)
  with assms(2) show ?thesis by simp
qed

lemma extract_categories_keys:
  assumes "extract_categories fmt data = Inr rs"
  shows "\<forall>r\<in>set rs. field r ''images'' = None \<and> field r ''primary_image'' = None"
proof -
  from assms obtain cs where "for_each (category_item fmt) cs = Inr rs"
    by (auto simp: extractors_container andThen_eq_Inr)
  then show ?thesis
    by (rule for_each_all) (rule category_item_keys)
qed

lemma daily_discover_record_images:
  assumes "daily_discover_record fmt (PDict kv) = Inr rs"
  shows "\<exists>r. rs = [r]
    \<and> field r ''primary_image''
        = Some (if truthy (dget kv ''image'' PNone)
                then PStr (cdn @ fmt (dget kv ''image'' PNone)) else PNone)
    \<and> (\<forall>xs. dget kv ''images'' (PList []) = PList xs \<longrightarrow>
          field r ''images'' = Some (PList (map (\<lambda>img. PStr (cdn @ fmt img)) (take 3 xs))))"
proof -
  from assms obtain r imgs first3 where r: "rs = [PDict r]"
    "map_of r ''primary_image''
        = Some (if truthy (dget kv ''image'' PNone)
                then PStr (cdn @ fmt (dget kv ''image'' PNone)) else PNone)"
    "map_of r ''images'' = Some (PList (map (\<lambda>img. PStr (cdn @ fmt img)) imgs))"
    "slice 3 (dget kv ''images'' (PList [])) = Inr first3" "iter first3 = Inr imgs"
    unfolding daily_discover_record_def Let_def by (elim andThen_InrE) auto
  then show ?thesis by (auto simp: field_def)
qed

text \<open>
  C1, as the code has it. In every record of the top-product, suggestion and flash-sale
  extractors \<^verbatim>\<open>primary_image\<close> is the first element of \<^verbatim>\<open>images\<close>, and \<^verbatim>\<open>None\<close>
  when \<^verbatim>\<open>images\<close> is empty. The records of the category extractor have neither key.
  In a daily-discover record \<^verbatim>\<open>primary_image\<close> is made from the \<^verbatim>\<open>image\<close> field of
  the item (\<^verbatim>\<open>None\<close> when that is missing or falsy) and \<^verbatim>\<open>images\<close> from the first
  three entries of its \<^verbatim>\<open>images\<close> field: the two are read independently of each
  other.
\<close>

theorem primary_image_first:
  "(extract_shopee_products fmt data = Inr rs \<longrightarrow> (\<forall>r\<in>set rs. primary_image_invariant r))
   \<and> (extract_suggestions fmt data = Inr rs \<longrightarrow> (\<forall>r\<in>set rs. primary_image_invariant r))
   \<and> (extract_flash_sales fmt data = Inr rs \<longrightarrow> (\<forall>r\<in>set rs. primary_image_invariant r))
   \<and> (extract_categories fmt data = Inr rs \<longrightarrow>
        (\<forall>r\<in>set rs. field r ''images'' = None \<and> field r ''primary_image'' = None))
   \<and> (daily_discover_record fmt (PDict kv) = Inr rs' \<longrightarrow>
        (\<exists>r. rs' = [r]
           \<and> field r ''primary_image''
               = Some (if truthy (dget kv ''image'' PNone)
                       then PStr (cdn @ fmt (dget kv ''image'' PNone)) else PNone)
           \<and> (\<forall>xs. dget kv ''images'' (PList []) = PList xs \<longrightarrow>
                 field r ''images''
                   = Some (PList (map (\<lambda>img. PStr (cdn @ fmt img)) (take 3 xs))))))"
  using extractor_invariants [of fmt data rs] extract_categories_keys [of fmt data rs]
    daily_discover_record_images [of fmt kv rs']
  by blast

lemma example_extractor_runs:
  "extract_shopee_products str_atom example_top_payload = Inr [example_top_record]"
  "extract_suggestions str_atom example_suggestion_payload = Inr [example_suggestion_record]"
  "extract_categories str_atom example_category_payload = Inr [example_category_record]"
  "extract_flash_sales str_atom example_flash_payload = Inr [example_flash_record]"
  "extract_daily_discover str_atom (discover_payload example_discover_item)
     = Inr [example_discover_record]"
  by code_simp+

theorem primary_image_first_witness:
  "extract_shopee_products str_atom example_top_payload = Inr [example_top_record]
   \<and> primary_image_invariant example_top_record
   \<and> extract_suggestions str_atom example_suggestion_payload = Inr [example_suggestion_record]
   \<and> primary_image_invariant example_suggestion_record
   \<and> extract_flash_sales str_atom example_flash_payload = Inr [example_flash_record]
   \<and> primary_image_invariant example_flash_record
   \<and> extract_categories str_atom example_category_payload = Inr [example_category_record]
   \<and> field example_category_record ''primary_image'' = None
   \<and> daily_discover_record str_atom (PDict example_discover_item) = Inr [example_discover_record]
   \<and> field example_discover_record ''primary_image''
       = Some (PStr ''https://down-id.img.susercontent.com/file/abc'')"
proof -
  have i: "dget example_discover_item ''image'' PNone = PStr ''abc''"
    by (simp add: example_discover_item_def dget_def)
  from primary_image_first [where fmt = str_atom and data = example_top_payload
      and rs = "[example_top_record]" and kv = example_discover_item
      and rs' = "[example_discover_record]"]
    primary_image_first [where fmt = str_atom and data = example_suggestion_payload
      and rs = "[example_suggestion_record]"]
    primary_image_first [where fmt = str_atom and data = example_flash_payload
      and rs = "[example_flash_record]"]
    primary_image_first [where fmt = str_atom and data = example_category_payload
      and rs = "[example_category_record]"]
    example_extractor_runs example_discover_run i
  show ?thesis by (simp add: cdn_def)
qed

text \<open>
  For a daily-discover item with an \<^verbatim>\<open>image\<close> and no \<^verbatim>\<open>images\<close> the record has
  an empty \<^verbatim>\<open>images\<close> list and a \<^verbatim>\<open>primary_image\<close> all the same.
\<close>

theorem primary_image_counterexample:
  "extract_daily_discover str_atom (discover_payload example_no_gallery_item)
     = Inr [example_no_gallery_record]
   \<and> field example_no_gallery_record ''images'' = Some (PList [])
   \<and> field example_no_gallery_record ''primary_image''
       = Some (PStr ''https://down-id.img.susercontent.com/file/abc'')
   \<and> \<not> primary_image_invariant example_no_gallery_record"
  by code_simp

subsection \<open>Exceptions in an extractor\<close>

lemma loop_all_or_nothing:
  assumes "extract = andThen (container data key) (for_each body)"
    and "container data key = Inr xs"
  shows "((\<forall>x\<in>set xs. \<not> isl (body x))
            \<longrightarrow> extract = Inr (concat (map (\<lambda>x. projr (body x)) xs)))
       \<and> ((\<exists>x\<in>set xs. isl (body x)) \<longrightarrow> isl extract)"
  using assms for_each_ok [of xs body] for_each_raises [of xs body] by simp

lemma section_all_or_nothing:
  assumes "get sec ''data'' (PDict []) = Inr section_data"
    and "get section_data ''top_product'' PNone = Inr top_products"
    and "truthy top_products" and "iter top_products = Inr xs"
  shows "((\<forall>x\<in>set xs. \<not> isl (top_product_item fmt x))
            \<longrightarrow> top_product_section fmt sec
                  = Inr (concat (map (\<lambda>x. projr (top_product_item fmt x)) xs)))
       \<and> ((\<exists>x\<in>set xs. isl (top_product_item fmt x))
            \<longrightarrow> isl (top_product_section fmt sec))"
  using assms for_each_ok [of xs "top_product_item fmt"]
    for_each_raises [of xs "top_product_item fmt"]
  by (simp add: top_product_section_def)

text \<open>
  C5, as the code has it. No extractor catches an exception. When the body of its loop
  completes for every element of the container, an extractor returns the records of all
  elements, in order; when the body raises for some element, the extractor raises and
  returns no record at all. The same holds for the inner loop of the top-product
  extractor over the products of a section.
\<close>

theorem extractors_all_or_nothing:
  "(container data ''sections'' = Inr xs \<longrightarrow>
      ((\<forall>x\<in>set xs. \<not> isl (top_product_section fmt x)) \<longrightarrow>
         extract_shopee_products fmt data
           = Inr (concat (map (\<lambda>x. projr (top_product_section fmt x)) xs)))
      \<and> ((\<exists>x\<in>set xs. isl (top_product_section fmt x)) \<longrightarrow>
           isl (extract_shopee_products fmt data)))
   \<and> (get sec ''data'' (PDict []) = Inr section_data
        \<and> get section_data ''top_product'' PNone = Inr top_products
        \<and> truthy top_products \<and> iter top_products = Inr xs \<longrightarrow>
      ((\<forall>x\<in>set xs. \<not> isl (top_product_item fmt x)) \<longrightarrow>
         top_product_section fmt sec
           = Inr (concat (map (\<lambda>x. projr (top_product_item fmt x)) xs)))
      \<and> ((\<exists>x\<in>set xs. isl (top_product_item fmt x)) \<longrightarrow>
           isl (top_product_section fmt sec)))
   \<and> (container data ''queries'' = Inr xs \<longrightarrow>
      ((\<forall>x\<in>set xs. \<not> isl (suggestion_item fmt x)) \<longrightarrow>
         extract_suggestions fmt data
           = Inr (concat (map (\<lambda>x. projr (suggestion_item fmt x)) xs)))
      \<and> ((\<exists>x\<in>set xs. isl (suggestion_item fmt x)) \<longrightarrow>
           isl (extract_suggestions fmt data)))
   \<and> (container data ''category_list'' = Inr xs \<longrightarrow>
      ((\<forall>x\<in>set xs. \<not> isl (category_item fmt x)) \<longrightarrow>
         extract_categories fmt data
           = Inr (concat (map (\<lambda>x. projr (category_item fmt x)) xs)))
      \<and> ((\<exists>x\<in>set xs. isl (category_item fmt x)) \<longrightarrow>
           isl (extract_categories fmt data)))
   \<and> (container data ''items'' = Inr xs \<longrightarrow>
      ((\<forall>x\<in>set xs. \<not> isl (flash_sale_item fmt x)) \<longrightarrow>
         extract_flash_sales fmt data
           = Inr (concat (map (\<lambda>x. projr (flash_sale_item fmt x)) xs)))
      \<and> ((\<exists>x\<in>set xs. isl (flash_sale_item fmt x)) \<longrightarrow>
           isl (extract_flash_sales fmt data)))
   \<and> (container data ''feeds'' = Inr xs \<longrightarrow>
      ((\<forall>x\<in>set xs. \<not> isl (daily_discover_feed fmt x)) \<longrightarrow>
         extract_daily_discover fmt data
           = Inr (concat (map (\<lambda>x. projr (daily_discover_feed fmt x)) xs)))
      \<and> ((\<exists>x\<in>set xs. isl (daily_discover_feed fmt x)) \<longrightarrow>
           isl (extract_daily_discover fmt data)))"
  using section_all_or_nothing [of sec section_data top_products xs fmt]
    loop_all_or_nothing [OF extractors_container(1), of data xs fmt]
    loop_all_or_nothing [OF extractors_container(2), of data xs fmt]
    loop_all_or_nothing [OF extractors_container(3), of data xs fmt]
    loop_all_or_nothing [OF extractors_container(4), of data xs fmt]
    loop_all_or_nothing [OF extractors_container(5), of data xs fmt]
  by blast

text \<open>
  One query with an empty \<^verbatim>\<open>item_ids\<close> list makes \<^verbatim>\<open>extract_suggestions\<close> raise
  IndexError, and one flash-sale item with a price that is not a number makes
  \<^verbatim>\<open>extract_flash_sales\<close> raise TypeError; in both cases the record of the well-formed
  element that follows, which the extractor returns when that element is alone, is lost.
\<close>

theorem containment_counterexample:
  "extract_suggestions str_atom (payload ''queries'' example_bad_queries) = Inl IndexError
   \<and> extract_suggestions str_atom (payload ''queries'' (tl example_bad_queries))
       = Inr [PDict
           [(''name'', PStr ''sepatu''), (''sold_count'', PNone),
            (''label'', PStr ''Suggestion''), (''product_id'', PInt 9),
            (''score'', PNone), (''images'', PList []), (''primary_image'', PNone),
            (''type'', PStr ''Suggestion''),
            (''url'', PStr ''https://shopee.co.id/search?keyword=sepatu'')]]
   \<and> extract_flash_sales str_atom (payload ''items'' example_bad_items) = Inl TypeError
   \<and> extract_flash_sales str_atom (payload ''items'' (tl example_bad_items))
       = Inr [example_flash_record]"
  by code_simp

lemma example_item_runs:
  "top_product_section str_atom (PInt 1) = Inl AttributeError"
  "suggestion_item str_atom (PDict [(''text'', PStr ''kaos''), (''item_ids'', PList [])])
     = Inl IndexError"
  "category_item str_atom (PDict [(''level'', PInt 1), (''display_name'', PNone)])
     = Inl AttributeError"
  "flash_sale_item str_atom (PDict [(''price'', PStr ''12.000'')]) = Inl TypeError"
  "daily_discover_feed str_atom (PStr ''item_card'') = Inl AttributeError"
  by code_simp+

lemma example_body_runs:
  "top_product_item str_atom example_top_item = Inr [example_top_record]"
  "top_product_section str_atom example_top_section = Inr [example_top_record]"
  "suggestion_item str_atom example_query = Inr [example_suggestion_record]"
  "category_item str_atom example_category = Inr [example_category_record]"
  "category_item str_atom example_subcategory = Inr []"
  "daily_discover_feed str_atom (discover_feed example_discover_item) = Inr [example_discover_record]"
  by code_simp+

theorem extractors_all_or_nothing_witness:
  "extract_shopee_products str_atom example_top_payload = Inr [example_top_record]
   \<and> isl (extract_shopee_products str_atom (payload ''sections'' [PInt 1, example_top_section]))
   \<and> top_product_section str_atom example_top_section = Inr [example_top_record]
   \<and> extract_suggestions str_atom example_suggestion_payload = Inr [example_suggestion_record]
   \<and> isl (extract_suggestions str_atom (payload ''queries'' example_bad_queries))
   \<and> extract_categories str_atom example_category_payload = Inr [example_category_record]
   \<and> extract_flash_sales str_atom example_flash_payload = Inr [example_flash_record]
   \<and> isl (extract_flash_sales str_atom (payload ''items'' example_bad_items))
   \<and> extract_daily_discover str_atom (discover_payload example_discover_item)
       = Inr [example_discover_record]
   \<and> isl (extract_daily_discover str_atom
             (payload ''feeds'' [PStr ''item_card'', discover_feed example_discover_item]))"
proof -
  note runs = example_body_runs example_item_runs example_flash_run
  note shapes = container_payload example_top_payload_def example_suggestion_payload_def
    example_category_payload_def example_flash_payload_def discover_payload_def
    example_bad_queries_def example_bad_items_def
  have sec: "get example_top_section ''data'' (PDict [])
      = Inr (PDict [(''top_product'', PList [example_top_item])])"
    "get (PDict [(''top_product'', PList [example_top_item])]) ''top_product'' PNone
      = Inr (PList [example_top_item])"
    by (simp_all add: example_top_section_def dget_def)
  have 1: "extract_shopee_products str_atom example_top_payload = Inr [example_top_record]"
    using extractors_all_or_nothing [where fmt = str_atom and data = example_top_payload
      and xs = "[example_top_section]"] runs
    by (simp add: shapes)
  have 2: "isl (extract_shopee_products str_atom (payload ''sections'' [PInt 1, example_top_section]))"
    using extractors_all_or_nothing [where fmt = str_atom
      and data = "payload ''sections'' [PInt 1, example_top_section]"
      and xs = "[PInt 1, example_top_section]"] runs
    by (simp add: shapes)
  have 3: "top_product_section str_atom example_top_section = Inr [example_top_record]"
    using extractors_all_or_nothing [where fmt = str_atom and xs = "[example_top_item]"
      and sec = example_top_section
      and section_data = "PDict [(''top_product'', PList [example_top_item])]"
      and top_products = "PList [example_top_item]"] runs sec
    by simp
  have 4: "extract_suggestions str_atom example_suggestion_payload = Inr [example_suggestion_record]"
    using extractors_all_or_nothing [where fmt = str_atom and data = example_suggestion_payload
      and xs = "[example_query]"] runs
    by (simp add: shapes)
  have 5: "isl (extract_suggestions str_atom (payload ''queries'' example_bad_queries))"
    using extractors_all_or_nothing [where fmt = str_atom
      and data = "payload ''queries'' example_bad_queries" and xs = example_bad_queries] runs
    by (simp add: shapes)
  have 6: "extract_categories str_atom example_category_payload = Inr [example_category_record]"
    using extractors_all_or_nothing [where fmt = str_atom and data = example_category_payload
      and xs = "[example_category, example_subcategory]"] runs
    by (simp add: shapes)
  have 7: "extract_flash_sales str_atom example_flash_payload = Inr [example_flash_record]"
    using extractors_all_or_nothing [where fmt = str_atom and data = example_flash_payload
      and xs = "[PDict example_flash_item]"] runs
    by (simp add: shapes)
  have 8: "isl (extract_flash_sales str_atom (payload ''items'' example_bad_items))"
    using extractors_all_or_nothing [where fmt = str_atom
      and data = "payload ''items'' example_bad_items" and xs = example_bad_items] runs
    by (simp add: shapes)
  have 9: "extract_daily_discover str_atom (discover_payload example_discover_item)
       = Inr [example_discover_record]"
    using extractors_all_or_nothing [where fmt = str_atom
      and data = "discover_payload example_discover_item"
      and xs = "[discover_feed example_discover_item]"] runs
    by (simp add: shapes)
  have 10: "isl (extract_daily_discover str_atom
             (payload ''feeds'' [PStr ''item_card'', discover_feed example_discover_item]))"
    using extractors_all_or_nothing [where fmt = str_atom
      and data = "payload ''feeds'' [PStr ''item_card'', discover_feed example_discover_item]"
      and xs = "[PStr ''item_card'', discover_feed example_discover_item]"] runs
    by (simp add: shapes)
  from 1 2 3 4 5 6 7 8 9 10 show ?thesis by blast
qed

subsection \<open>Fields that the item does not have\<close>

lemma parse_info_string_absent: "parse_info_string (PStr []) = Inr []"
  by (simp add: parse_info_string_def)

lemma flash_sale_item_absent:
  assumes "flash_sale_item fmt (PDict kv) = Inr rs"
  shows "\<exists>r. rs = [r]
    \<and> (map_of kv ''name'' = None \<longrightarrow> field r ''name'' = Some PNone)
    \<and> (map_of kv ''item_rating'' = None \<longrightarrow> field r ''score'' = Some PNone)
    \<and> (map_of kv ''image'' = None \<longrightarrow> field r ''primary_image'' = Some PNone)
    \<and> (map_of kv ''price'' = None \<longrightarrow> field r ''price'' = Some (PFloat 0))
    \<and> (map_of kv ''price_before_discount'' = None \<longrightarrow> field r ''old_price'' = Some (PFloat 0))
    \<and> (map_of kv ''discount'' = None \<longrightarrow> field r ''discount'' = Some (PStr []))
    \<and> (map_of kv ''historical_sold'' = None \<longrightarrow> field r ''sold_count'' = Some PNone)"
proof -
  from assms obtain r price old_price rating_star where
    p: "truediv (py_or (dget kv ''price'' PNone) (PInt 0)) 100000 = Inr price"
    and o: "truediv (py_or (dget kv ''price_before_discount'' PNone) (PInt 0)) 100000
              = Inr old_price"
    and s: "get (dget kv ''item_rating'' (PDict [])) ''rating_star'' PNone = Inr rating_star"
    and rs: "rs = [PDict r]"
    and r: "map_of r ''name'' = Some (dget kv ''name'' PNone)"
      "map_of r ''score'' = Some rating_star"
      "map_of r ''primary_image''
         = Some (if truthy (dget kv ''image'' PNone)
                 then PStr (cdn @ fmt (dget kv ''image'' PNone)) else PNone)"
      "map_of r ''price'' = Some price"
      "map_of r ''old_price'' = Some old_price"
      "map_of r ''discount'' = Some (dget kv ''discount'' (PStr []))"
      "map_of r ''sold_count'' = Some (dget kv ''historical_sold'' PNone)"
    unfolding flash_sale_item_def Let_def by (elim andThen_InrE) auto
  have "map_of kv ''price'' = None \<Longrightarrow> price = PFloat 0"
    using p by (simp add: dget_absent py_or_def)
  moreover have "map_of kv ''price_before_discount'' = None \<Longrightarrow> old_price = PFloat 0"
    using o by (simp add: dget_absent py_or_def)
  moreover have "map_of kv ''item_rating'' = None \<Longrightarrow> rating_star = PNone"
    using s by (simp add: dget_absent dget_def)
  ultimately show ?thesis
    unfolding rs using r by (simp add: field_def dget_absent)
qed

lemma top_product_item_absent:
  assumes "top_product_item fmt (PDict kv) = Inr rs"
  shows "\<exists>r. rs = [r]
    \<and> (map_of kv ''name'' = None \<longrightarrow> field r ''name'' = Some PNone)
    \<and> (map_of kv ''info'' = None \<longrightarrow> field r ''score'' = Some PNone)
    \<and> (map_of kv ''images'' = None \<longrightarrow> field r ''primary_image'' = Some PNone)
    \<and> (map_of kv ''count'' = None \<longrightarrow> field r ''sold_count'' = Some PNone)"
proof -
  from assms obtain r info_meta ids where
    i: "parse_info_string (dget kv ''info'' (PStr [])) = Inr info_meta"
    and g: "iter (dget kv ''images'' (PList [])) = Inr ids"
    and rs: "rs = [PDict r]"
    and r: "map_of r ''name'' = Some (dget kv ''name'' PNone)"
      "map_of r ''score'' = Some (dget info_meta ''score'' PNone)"
      "map_of r ''primary_image''
         = Some (case map (\<lambda>img_id. PStr (cdn @ fmt img_id)) ids of
                   [] \<Rightarrow> PNone | u # us \<Rightarrow> u)"
      "map_of r ''sold_count'' = Some (dget kv ''count'' PNone)"
    unfolding top_product_item_def Let_def by (elim andThen_InrE) auto
  have "map_of kv ''info'' = None \<Longrightarrow> dget info_meta ''score'' PNone = PNone"
    using i by (auto simp: dget_absent parse_info_string_absent dget_def)
  moreover have "map_of kv ''images'' = None \<Longrightarrow> ids = []"
    using g by (simp add: dget_absent)
  ultimately show ?thesis
    unfolding rs using r by (auto simp: field_def dget_absent)
qed

lemma suggestion_item_absent:
  assumes "suggestion_item fmt (PDict kv) = Inr rs"
  shows "\<exists>r. rs = [r]
    \<and> (map_of kv ''text'' = None \<longrightarrow> field r ''name'' = Some (PStr []))
    \<and> (map_of kv ''tracking'' = None \<longrightarrow> field r ''score'' = Some PNone)
    \<and> (map_of kv ''image'' = None \<and> map_of kv ''images'' = None
          \<longrightarrow> field r ''primary_image'' = Some PNone)
    \<and> field r ''sold_count'' = Some PNone"
proof -
  from assms obtain r img_id score_match score where
    i: "(if truthy (dget kv ''image'' PNone) then Inr (dget kv ''image'' PNone)
         else if truthy (dget kv ''images'' PNone) then index0 (dget kv ''images'' PNone)
         else Inr PNone) = Inr img_id"
    and m: "re_search (CHR 0x22 # ''rank_score'' @ [CHR 0x22, CHR '':''])
              (dget kv ''tracking'' (PStr [])) = Inr score_match"
    and sc: "(case score_match of
                None \<Rightarrow> Inr PNone
              | Some g \<Rightarrow> py_float g) = Inr score"
    and rs: "rs = [PDict r]"
    and r: "map_of r ''name'' = Some (dget kv ''text'' (PStr []))"
      "map_of r ''score'' = Some score"
      "map_of r ''primary_image''
         = Some (if truthy img_id then PStr (cdn @ fmt img_id) else PNone)"
      "map_of r ''sold_count'' = Some PNone"
    unfolding suggestion_item_def Let_def by (elim andThen_InrE) auto
  have "map_of kv ''tracking'' = None \<Longrightarrow> score = PNone"
    using m sc by (auto simp: dget_absent)
  moreover have "map_of kv ''image'' = None \<and> map_of kv ''images'' = None \<Longrightarrow> img_id = PNone"
    using i by (simp add: dget_absent)
  ultimately show ?thesis
    unfolding rs using r by (auto simp: field_def dget_absent)
qed

lemma daily_discover_record_absent:
  assumes "daily_discover_record fmt (PDict kv) = Inr rs"
  shows "\<exists>r. rs = [r]
    \<and> (map_of kv ''name'' = None \<longrightarrow> field r ''name'' = Some PNone)
    \<and> (map_of kv ''item_rating'' = None \<longrightarrow> field r ''score'' = Some PNone)
    \<and> (map_of kv ''image'' = None \<longrightarrow> field r ''primary_image'' = Some PNone)
    \<and> (map_of kv ''item_card_display_price'' = None \<longrightarrow>
          field r ''price'' = Some (PFloat 0) \<and> field r ''old_price'' = Some (PFloat 0)
          \<and> field r ''discount'' = Some (PStr []))
    \<and> (\<forall>dp. map_of kv ''item_card_display_price'' = Some (PDict dp) \<longrightarrow>
          (map_of dp ''price'' = None \<longrightarrow> field r ''price'' = Some (PFloat 0))
          \<and> (map_of dp ''strikethrough_price'' = None
                \<longrightarrow> field r ''old_price'' = Some (PFloat 0))
          \<and> (map_of dp ''discount_text'' = None \<longrightarrow> field r ''discount'' = Some (PStr [])))
    \<and> (map_of kv ''historical_sold'' = None \<longrightarrow> field r ''sold_count'' = Some (PInt 0))"
proof -
  define display_price where "display_price = dget kv ''item_card_display_price'' (PDict [])"
  from assms obtain r p sp price old_price discount rating_star where
    p: "get display_price ''price'' PNone = Inr p"
      "truediv (py_or p (PInt 0)) 100000 = Inr price"
    and o: "get display_price ''strikethrough_price'' PNone = Inr sp"
      "truediv (py_or sp (PInt 0)) 100000 = Inr old_price"
    and d: "get display_price ''discount_text'' (PStr []) = Inr discount"
    and s: "get (dget kv ''item_rating'' (PDict [])) ''rating_star'' PNone = Inr rating_star"
    and rs: "rs = [PDict r]"
    and r: "map_of r ''name'' = Some (dget kv ''name'' PNone)"
      "map_of r ''score'' = Some rating_star"
      "map_of r ''primary_image''
         = Some (if truthy (dget kv ''image'' PNone)
                 then PStr (cdn @ fmt (dget kv ''image'' PNone)) else PNone)"
      "map_of r ''price'' = Some price"
      "map_of r ''old_price'' = Some old_price"
      "map_of r ''discount'' = Some discount"
      "map_of r ''sold_count'' = Some (py_or (dget kv ''historical_sold'' PNone) (PInt 0))"
    unfolding daily_discover_record_def Let_def display_price_def
    by (elim andThen_InrE) auto
  have none: "map_of kv ''item_card_display_price'' = None
      \<Longrightarrow> price = PFloat 0 \<and> old_price = PFloat 0 \<and> discount = PStr []"
    using p o d by (auto simp: display_price_def dget_absent py_or_def dget_def)
  have some: "price = (if map_of dp ''price'' = None then PFloat 0 else price)
      \<and> old_price = (if map_of dp ''strikethrough_price'' = None then PFloat 0 else old_price)
      \<and> discount = (if map_of dp ''discount_text'' = None then PStr [] else discount)"
    if "map_of kv ''item_card_display_price'' = Some (PDict dp)" for dp
  proof -
    from that have "display_price = PDict dp" by (simp add: display_price_def dget_def)
    with p o d show ?thesis by (auto simp: dget_absent py_or_def)
  qed
  have star: "map_of kv ''item_rating'' = None \<Longrightarrow> rating_star = PNone"
    using s by (simp add: dget_absent dget_def)
  have "\<forall>dp. map_of kv ''item_card_display_price'' = Some (PDict dp) \<longrightarrow>
          (map_of dp ''price'' = None \<longrightarrow> price = PFloat 0)
          \<and> (map_of dp ''strikethrough_price'' = None \<longrightarrow> old_price = PFloat 0)
          \<and> (map_of dp ''discount_text'' = None \<longrightarrow> discount = PStr [])"
    using some by metis
  with none star show ?thesis
    unfolding rs using r by (simp add: field_def dget_absent py_or_def)
qed

lemma category_item_absent:
  assumes "category_item fmt (PDict kv) = Inr rs" and "eq_one (dget kv ''level'' PNone)"
  shows "\<exists>r. rs = [r]
    \<and> (map_of kv ''display_name'' = None \<and> map_of kv ''name'' = None
          \<longrightarrow> field r ''name'' = Some PNone)
    \<and> (map_of kv ''image'' = None \<longrightarrow> field r ''image'' = Some PNone)"
proof -
  from assms have "andThen (replace_spaces (dget kv ''display_name'' (PStr []))) (\<lambda>slug.
       andThen (py_quote (PStr slug)) (\<lambda>encoded.
       Inr [PDict
         [(''name'', py_or (dget kv ''display_name'' PNone) (dget kv ''name'' PNone)),
          (''id'', dget kv ''catid'' PNone),
          (''image'', if truthy (dget kv ''image'' PNone)
                      then PStr (cdn @ fmt (dget kv ''image'' PNone)) else PNone),
          (''url'', PStr (''https://shopee.co.id/'' @ encoded @ ''-cat.''
                          @ fmt (dget kv ''catid'' PNone)))]]))
       = Inr rs"
    by (simp add: category_item_def)
  then obtain r where rs: "rs = [PDict r]"
    and r: "map_of r ''name''
              = Some (py_or (dget kv ''display_name'' PNone) (dget kv ''name'' PNone))"
      "map_of r ''image'' = Some (if truthy (dget kv ''image'' PNone)
                      then PStr (cdn @ fmt (dget kv ''image'' PNone)) else PNone)"
    by (elim andThen_InrE) auto
  show ?thesis
    unfolding rs using r by (simp add: field_def dget_absent py_or_def)
qed

text \<open>
  C3, as the code has it. In the record built from an item, a missing \<^verbatim>\<open>name\<close>, a
  missing source of the score (\<^verbatim>\<open>info\<close>, \<^verbatim>\<open>tracking\<close>, \<^verbatim>\<open>item_rating\<close>) and a
  missing image give \<^verbatim>\<open>None\<close>, except that a suggestion without \<^verbatim>\<open>text\<close> gets the
  empty string as its name. In flash-sale and daily-discover records a missing price or
  old price gives 0.0 and a missing discount gives the empty string. A missing count
  gives \<^verbatim>\<open>None\<close> in top-product and flash-sale records, 0 in daily-discover records,
  and suggestions always have \<^verbatim>\<open>None\<close>.
\<close>

theorem absent_fields:
  "(top_product_item fmt (PDict kv) = Inr rs \<longrightarrow>
      (\<exists>r. rs = [r]
         \<and> (map_of kv ''name'' = None \<longrightarrow> field r ''name'' = Some PNone)
         \<and> (map_of kv ''info'' = None \<longrightarrow> field r ''score'' = Some PNone)
         \<and> (map_of kv ''images'' = None \<longrightarrow> field r ''primary_image'' = Some PNone)
         \<and> (map_of kv ''count'' = None \<longrightarrow> field r ''sold_count'' = Some PNone)))
   \<and> (suggestion_item fmt (PDict kv) = Inr rs \<longrightarrow>
      (\<exists>r. rs = [r]
         \<and> (map_of kv ''text'' = None \<longrightarrow> field r ''name'' = Some (PStr []))
         \<and> (map_of kv ''tracking'' = None \<longrightarrow> field r ''score'' = Some PNone)
         \<and> (map_of kv ''image'' = None \<and> map_of kv ''images'' = None
               \<longrightarrow> field r ''primary_image'' = Some PNone)
         \<and> field r ''sold_count'' = Some PNone))
   \<and> (category_item fmt (PDict kv) = Inr rs \<and> eq_one (dget kv ''level'' PNone) \<longrightarrow>
      (\<exists>r. rs = [r]
         \<and> (map_of kv ''display_name'' = None \<and> map_of kv ''name'' = None
               \<longrightarrow> field r ''name'' = Some PNone)
         \<and> (map_of kv ''image'' = None \<longrightarrow> field r ''image'' = Some PNone)))
   \<and> (flash_sale_item fmt (PDict kv) = Inr rs \<longrightarrow>
      (\<exists>r. rs = [r]
         \<and> (map_of kv ''name'' = None \<longrightarrow> field r ''name'' = Some PNone)
         \<and> (map_of kv ''item_rating'' = None \<longrightarrow> field r ''score'' = Some PNone)
         \<and> (map_of kv ''image'' = None \<longrightarrow> field r ''primary_image'' = Some PNone)
         \<and> (map_of kv ''price'' = None \<longrightarrow> field r ''price'' = Some (PFloat 0))
         \<and> (map_of kv ''price_before_discount'' = None
               \<longrightarrow> field r ''old_price'' = Some (PFloat 0))
         \<and> (map_of kv ''discount'' = None \<longrightarrow> field r ''discount'' = Some (PStr []))
         \<and> (map_of kv ''historical_sold'' = None \<longrightarrow> field r ''sold_count'' = Some PNone)))
   \<and> (daily_discover_record fmt (PDict kv) = Inr rs \<longrightarrow>
      (\<exists>r. rs = [r]
         \<and> (map_of kv ''name'' = None \<longrightarrow> field r ''name'' = Some PNone)
         \<and> (map_of kv ''item_rating'' = None \<longrightarrow> field r ''score'' = Some PNone)
         \<and> (map_of kv ''image'' = None \<longrightarrow> field r ''primary_image'' = Some PNone)
         \<and> (map_of kv ''item_card_display_price'' = None \<longrightarrow>
               field r ''price'' = Some (PFloat 0) \<and> field r ''old_price'' = Some (PFloat 0)
               \<and> field r ''discount'' = Some (PStr []))
         \<and> (\<forall>dp. map_of kv ''item_card_display_price'' = Some (PDict dp) \<longrightarrow>
               (map_of dp ''price'' = None \<longrightarrow> field r ''price'' = Some (PFloat 0))
               \<and> (map_of dp ''strikethrough_price'' = None
                     \<longrightarrow> field r ''old_price'' = Some (PFloat 0))
               \<and> (map_of dp ''discount_text'' = None
                     \<longrightarrow> field r ''discount'' = Some (PStr [])))
         \<and> (map_of kv ''historical_sold'' = None
               \<longrightarrow> field r ''sold_count'' = Some (PInt 0))))"
proof (intro conjI impI)
  show "\<exists>r. rs = [r]
         \<and> (map_of kv ''display_name'' = None \<and> map_of kv ''name'' = None
               \<longrightarrow> field r ''name'' = Some PNone)
         \<and> (map_of kv ''image'' = None \<longrightarrow> field r ''image'' = Some PNone)"
    if "category_item fmt (PDict kv) = Inr rs \<and> eq_one (dget kv ''level'' PNone)"
    using that category_item_absent [of fmt kv rs] by blast
qed (fact top_product_item_absent suggestion_item_absent flash_sale_item_absent
      daily_discover_record_absent)+

lemma bare_item_runs:
  "top_product_item str_atom (PDict bare_top_item) = Inr [bare_top_record]"
  "suggestion_item str_atom (PDict bare_query) = Inr [bare_suggestion_record]"
  "category_item str_atom (PDict bare_category) = Inr [bare_category_record]"
  "flash_sale_item str_atom (PDict bare_item) = Inr [bare_flash_record]"
  "daily_discover_record str_atom (PDict bare_item) = Inr [bare_discover_record]"
  by code_simp+

theorem absent_fields_witness:
  "top_product_item str_atom (PDict bare_top_item) = Inr [bare_top_record]
   \<and> field bare_top_record ''name'' = Some PNone
   \<and> field bare_top_record ''sold_count'' = Some PNone
   \<and> suggestion_item str_atom (PDict bare_query) = Inr [bare_suggestion_record]
   \<and> field bare_suggestion_record ''name'' = Some (PStr [])
   \<and> field bare_suggestion_record ''score'' = Some PNone
   \<and> category_item str_atom (PDict bare_category) = Inr [bare_category_record]
   \<and> field bare_category_record ''name'' = Some PNone
   \<and> flash_sale_item str_atom (PDict bare_item) = Inr [bare_flash_record]
   \<and> field bare_flash_record ''price'' = Some (PFloat 0)
   \<and> field bare_flash_record ''primary_image'' = Some PNone
   \<and> daily_discover_record str_atom (PDict bare_item) = Inr [bare_discover_record]
   \<and> field bare_discover_record ''sold_count'' = Some (PInt 0)
   \<and> field bare_discover_record ''score'' = Some PNone"
proof -
  have absent: "map_of bare_top_item ''name'' = None" "map_of bare_top_item ''count'' = None"
    "map_of bare_query ''text'' = None" "map_of bare_query ''tracking'' = None"
    "map_of bare_category ''display_name'' = None" "map_of bare_category ''name'' = None"
    "eq_one (dget bare_category ''level'' PNone)"
    "map_of bare_item ''price'' = None" "map_of bare_item ''image'' = None"
    "map_of bare_item ''historical_sold'' = None" "map_of bare_item ''item_rating'' = None"
    by (simp_all add: bare_top_item_def bare_query_def bare_category_def bare_item_def
        eq_one_def dget_def)
  have 1: "field bare_top_record ''name'' = Some PNone
      \<and> field bare_top_record ''sold_count'' = Some PNone"
    using absent_fields [where fmt = str_atom and kv = bare_top_item and rs = "[bare_top_record]"]
      bare_item_runs(1) absent by simp
  have 2: "field bare_suggestion_record ''name'' = Some (PStr [])
      \<and> field bare_suggestion_record ''score'' = Some PNone"
    using absent_fields [where fmt = str_atom and kv = bare_query
        and rs = "[bare_suggestion_record]"]
      bare_item_runs(2) absent by simp
  have 3: "field bare_category_record ''name'' = Some PNone"
    using absent_fields [where fmt = str_atom and kv = bare_category
        and rs = "[bare_category_record]"]
      bare_item_runs(3) absent by simp
  have 4: "field bare_flash_record ''price'' = Some (PFloat 0)
      \<and> field bare_flash_record ''primary_image'' = Some PNone"
    using absent_fields [where fmt = str_atom and kv = bare_item and rs = "[bare_flash_record]"]
      bare_item_runs(4) absent by simp
  have 5: "field bare_discover_record ''sold_count'' = Some (PInt 0)
      \<and> field bare_discover_record ''score'' = Some PNone"
    using absent_fields [where fmt = str_atom and kv = bare_item
        and rs = "[bare_discover_record]"]
      bare_item_runs(5) absent by simp
  from 1 2 3 4 5 bare_item_runs show ?thesis by blast
qed

text \<open>
  A flash-sale item without \<^verbatim>\<open>price\<close>, \<^verbatim>\<open>discount\<close> and \<^verbatim>\<open>historical_sold\<close> gets
  the price 0.0, the empty discount and the count \<^verbatim>\<open>None\<close>.
\<close>

theorem absent_fields_counterexample:
  "extract_flash_sales str_atom (payload ''items'' [PDict bare_item]) = Inr [bare_flash_record]
   \<and> map_of bare_item ''price'' = None
   \<and> field bare_flash_record ''price'' = Some (PFloat 0)
   \<and> map_of bare_item ''discount'' = None
   \<and> field bare_flash_record ''discount'' = Some (PStr [])
   \<and> map_of bare_item ''historical_sold'' = None
   \<and> field bare_flash_record ''sold_count'' = Some PNone"
  by code_simp

subsection \<open>The replay client\<close>

lemma fetch_with_response:
  assumes "subscript prep ''url'' = Inr url" and "subscript prep ''headers'' = Inr headers"
    and "subscript prep ''cookies'' = Inr cookies" and "slice 60 url = Inr shown"
    and "client_get url headers cookies = Inr response"
  shows "fetch_shopee_direct (Some prep) client_get artifact =
     (if status_code response = 200 then
        case body_json response of
          None \<Rightarrow> Inr ([Sending shown, Exception ValueError], artifact)
        | Some data \<Rightarrow>
            (case count_products data of
               Inl e \<Rightarrow> Inr ([Sending shown, Exception e], artifact)
             | Inr product_count \<Rightarrow> Inr ([Sending shown, Fetched product_count, Saved], Some data))
      else Inr ([Sending shown, StatusCode (status_code response),
                 ResponseExcerpt (take 200 (body_text response))], artifact))"
  using assms by (simp add: fetch_shopee_direct_def)

lemma fetch_saved_only_on_200:
  assumes "fetch_shopee_direct prep_file client_get artifact = Inr (out, artifact')"
  shows "artifact' = artifact \<and> Saved \<notin> set out
     \<or> (\<exists>prep url headers cookies response data.
           prep_file = Some prep \<and> subscript prep ''url'' = Inr url
           \<and> subscript prep ''headers'' = Inr headers
           \<and> subscript prep ''cookies'' = Inr cookies
           \<and> client_get url headers cookies = Inr response
           \<and> status_code response = 200 \<and> body_json response = Some data
           \<and> artifact' = Some data \<and> Saved \<in> set out)"
proof (cases prep_file)
  case None
  with assms show ?thesis by (auto simp: fetch_shopee_direct_def)
next
  case (Some prep)
  with assms show ?thesis
    by (auto simp: fetch_shopee_direct_def andThen_def
        split: sum.splits if_splits option.splits)
qed

text \<open>
  C7, as the code has it. Once the request has been answered: on a status other than
  200 the client prints the status code and the first 200 characters of the body and
  leaves the artifact as it was; on status 200 it stores the parsed body as the new
  artifact when the body is JSON and the count over
  \<^verbatim>\<open>data.sections[].data.top_product\<close> completes, and otherwise prints the exception
  and leaves the artifact as it was. In every run that returns, the artifact is either
  unchanged, with nothing reported as saved, or it is the JSON body of a response with
  status 200.
\<close>

theorem replay_persistence:
  "(subscript prep ''url'' = Inr url \<and> subscript prep ''headers'' = Inr headers
      \<and> subscript prep ''cookies'' = Inr cookies \<and> slice 60 url = Inr shown
      \<and> client_get url headers cookies = Inr response \<longrightarrow>
    fetch_shopee_direct (Some prep) client_get artifact =
     (if status_code response = 200 then
        case body_json response of
          None \<Rightarrow> Inr ([Sending shown, Exception ValueError], artifact)
        | Some data \<Rightarrow>
            (case count_products data of
               Inl e \<Rightarrow> Inr ([Sending shown, Exception e], artifact)
             | Inr product_count \<Rightarrow> Inr ([Sending shown, Fetched product_count, Saved], Some data))
      else Inr ([Sending shown, StatusCode (status_code response),
                 ResponseExcerpt (take 200 (body_text response))], artifact)))
   \<and> (fetch_shopee_direct prep_file client_get artifact = Inr (out, artifact') \<longrightarrow>
        artifact' = artifact \<and> Saved \<notin> set out
        \<or> (\<exists>prep url headers cookies response data.
              prep_file = Some prep \<and> subscript prep ''url'' = Inr url
              \<and> subscript prep ''headers'' = Inr headers
              \<and> subscript prep ''cookies'' = Inr cookies
              \<and> client_get url headers cookies = Inr response
              \<and> status_code response = 200 \<and> body_json response = Some data
              \<and> artifact' = Some data \<and> Saved \<in> set out))"
  using fetch_with_response [of prep url headers cookies shown client_get response artifact]
    fetch_saved_only_on_200 [of prep_file client_get artifact out artifact']
  by blast

lemma example_prep_parts:
  "subscript example_prep ''url''
     = Inr (PStr ''https://shopee.co.id/api/v4/recommend/recommend?bundle=top_products_homepage&limit=20'')"
  "subscript example_prep ''headers''
     = Inr (PDict [(''user-agent'', PStr ''Mozilla/5.0''),
                   (''x-requested-with'', PStr ''XMLHttpRequest''),
                   (''accept'', PStr ''application/json'')])"
  "subscript example_prep ''cookies'' = Inr (PDict [(''SPC_F'', PStr ''abc'')])"
  "slice 60 (PStr ''https://shopee.co.id/api/v4/recommend/recommend?bundle=top_products_homepage&limit=20'')
     = Inr example_shown"
  by code_simp+

lemma example_count: "count_products example_top_payload = Inr 1"
  by code_simp

theorem replay_persistence_witness:
  "fetch_shopee_direct (Some example_prep) (reply_with example_ok_response) example_artifact
     = Inr ([Sending example_shown, Fetched 1, Saved], Some example_top_payload)
   \<and> fetch_shopee_direct (Some example_prep) (reply_with example_denied_response) example_artifact
     = Inr ([Sending example_shown, StatusCode 403, ResponseExcerpt ''<html>Forbidden</html>''],
            example_artifact)"
proof -
  have 1: "fetch_shopee_direct (Some example_prep) (reply_with example_ok_response)
             example_artifact
     = Inr ([Sending example_shown, Fetched 1, Saved], Some example_top_payload)"
    using replay_persistence [where prep = example_prep
        and client_get = "reply_with example_ok_response" and response = example_ok_response
        and artifact = example_artifact and shown = example_shown
        and url = "PStr ''https://shopee.co.id/api/v4/recommend/recommend?bundle=top_products_homepage&limit=20''"
        and headers = "PDict [(''user-agent'', PStr ''Mozilla/5.0''),
                   (''x-requested-with'', PStr ''XMLHttpRequest''),
                   (''accept'', PStr ''application/json'')]"
        and cookies = "PDict [(''SPC_F'', PStr ''abc'')]", THEN conjunct1]
      example_prep_parts example_count
    by (simp add: reply_with_def example_ok_response_def)
  have 2: "fetch_shopee_direct (Some example_prep) (reply_with example_denied_response)
             example_artifact
     = Inr ([Sending example_shown, StatusCode 403, ResponseExcerpt ''<html>Forbidden</html>''],
            example_artifact)"
    using replay_persistence [where prep = example_prep
        and client_get = "reply_with example_denied_response"
        and response = example_denied_response
        and artifact = example_artifact and shown = example_shown
        and url = "PStr ''https://shopee.co.id/api/v4/recommend/recommend?bundle=top_products_homepage&limit=20''"
        and headers = "PDict [(''user-agent'', PStr ''Mozilla/5.0''),
                   (''x-requested-with'', PStr ''XMLHttpRequest''),
                   (''accept'', PStr ''application/json'')]"
        and cookies = "PDict [(''SPC_F'', PStr ''abc'')]", THEN conjunct1]
      example_prep_parts
    by (simp add: reply_with_def example_denied_response_def)
  from 1 2 show ?thesis by blast
qed

text \<open>
  A response with status 200 whose JSON body has \<^verbatim>\<open>"data": null\<close> is not stored: the
  count raises AttributeError, which the client prints, and the artifact stays.
\<close>

theorem replay_persistence_counterexample:
  "status_code example_error_response = 200
   \<and> fetch_shopee_direct (Some example_prep) (reply_with example_error_response)
         example_artifact
       = Inr ([Sending example_shown, Exception AttributeError], example_artifact)"
  by code_simp

end
